theory Spec2Isabelle
  imports Complex_Main "HOL-Library.Sublist" "HOL-Library.AList"
begin

section \<open>Values exchanged with the remote API\<close>

text \<open>
  The two scripts \<^verbatim>\<open>autoRefund.py\<close> and \<^verbatim>\<open>auto_refund.py\<close> inspect whatever
  \<^verbatim>\<open>resp.json()\<close> returns, so the model works on parsed JSON values as Python sees them.
  A Python \<^verbatim>\<open>float\<close> is either a finite double, whose exact value is a rational number,
  or one of \<^verbatim>\<open>inf\<close>, \<^verbatim>\<open>-inf\<close>, \<^verbatim>\<open>nan\<close> (the standard decoder accepts all three).
  Python's \<^verbatim>\<open>None\<close> and JSON's \<^verbatim>\<open>null\<close> are the one value \<open>JNull\<close>; a dict is the list
  of its items, read with \<open>map_of\<close>.
\<close>

datatype pyfloat = Finite rat | PosInf | NegInf | NaN

datatype json =
    JNull
  | JBool bool
  | JInt int
  | JFloat pyfloat
  | JStr string
  | JList "json list"
  | JObj "(string \<times> json) list"

datatype py_exn = ValueError | TypeError | OverflowError | AttributeError | SystemExit nat

text \<open>Truth value of an object, as \<^verbatim>\<open>not x\<close> and \<^verbatim>\<open>if x:\<close> test it.\<close>

fun truthy :: "json \<Rightarrow> bool" where
  "truthy JNull = False"
| "truthy (JBool b) = b"
| "truthy (JInt n) = (n \<noteq> 0)"
| "truthy (JFloat f) = (f \<noteq> Finite 0)"
| "truthy (JStr s) = (s \<noteq> [])"
| "truthy (JList l) = (l \<noteq> [])"
| "truthy (JObj kvs) = (kvs \<noteq> [])"

text \<open>\<^verbatim>\<open>x == 0\<close>: numbers compare by value (\<^verbatim>\<open>False == 0\<close> and \<^verbatim>\<open>0.0 == 0\<close> hold),
  every other object differs from \<^verbatim>\<open>0\<close>.\<close>

fun py_eq_zero :: "json \<Rightarrow> bool" where
  "py_eq_zero (JBool b) = (\<not> b)"
| "py_eq_zero (JInt n) = (n = 0)"
| "py_eq_zero (JFloat f) = (f = Finite 0)"
| "py_eq_zero _ = False"

text \<open>\<^verbatim>\<open>isinstance(x, (int, str))\<close>; \<^verbatim>\<open>bool\<close> is a subclass of \<^verbatim>\<open>int\<close>.\<close>

fun isinstance_int_str :: "json \<Rightarrow> bool" where
  "isinstance_int_str (JBool b) = True"
| "isinstance_int_str (JInt n) = True"
| "isinstance_int_str (JStr s) = True"
| "isinstance_int_str _ = False"

subsection \<open>The builtin \<^verbatim>\<open>int()\<close>\<close>

text \<open>
  \<^verbatim>\<open>int(s)\<close> on a string strips surrounding whitespace, reads an optional sign and then
  decimal digits, where single underscores may separate digits; anything else raises
  \<^verbatim>\<open>ValueError\<close>. The model covers ASCII text, where the whitespace that \<^verbatim>\<open>int\<close> strips
  is the space and the characters 0x09 to 0x0D (the separators 0x1C to 0x1F are not
  stripped: \<^verbatim>\<open>int\<close> refuses a string padded with them). In text beyond ASCII Python also
  accepts the decimal digits and the spaces of other scripts, among them U+0085 and
  U+00A0; and it refuses literals beyond its digit limit.
\<close>

definition is_space :: "char \<Rightarrow> bool" where
  "is_space c = (c \<in> set [CHR '' '', CHR 0x09, CHR 0x0A, CHR 0x0B, CHR 0x0C, CHR 0x0D])"

definition is_digit :: "char \<Rightarrow> bool" where
  "is_digit c = (48 \<le> (of_char c :: nat) \<and> (of_char c :: nat) \<le> 57)"

definition digit_val :: "char \<Rightarrow> nat" where
  "digit_val c = (of_char c :: nat) - 48"

definition strip :: "string \<Rightarrow> string" where
  "strip s = rev (dropWhile is_space (rev (dropWhile is_space s)))"

fun digits_value :: "bool \<Rightarrow> nat \<Rightarrow> string \<Rightarrow> nat option" where
  "digits_value prev_digit acc [] = (if prev_digit then Some acc else None)"
| "digits_value prev_digit acc (c # cs) =
     (if is_digit c then digits_value True (acc * 10 + digit_val c) cs
      else if c = CHR ''_'' \<and> prev_digit then digits_value False acc cs
      else None)"

definition int_of_str :: "string \<Rightarrow> int option" where
  "int_of_str s =
     (case strip s of
        [] \<Rightarrow> None
      | c # cs \<Rightarrow>
          if c = CHR ''-'' then map_option (\<lambda>n. - int n) (digits_value False 0 cs)
          else if c = CHR ''+'' then map_option int (digits_value False 0 cs)
          else map_option int (digits_value False 0 (c # cs)))"

text \<open>\<^verbatim>\<open>int(x)\<close> on a float discards the fractional part (rounds toward zero).\<close>

definition trunc :: "rat \<Rightarrow> int" where
  "trunc q = (if 0 \<le> q then \<lfloor>q\<rfloor> else \<lceil>q\<rceil>)"

fun py_int :: "json \<Rightarrow> py_exn + int" where
  "py_int JNull = Inl TypeError"
| "py_int (JBool b) = Inr (if b then 1 else 0)"
| "py_int (JInt n) = Inr n"
| "py_int (JFloat (Finite q)) = Inr (trunc q)"
| "py_int (JFloat NaN) = Inl ValueError"
| "py_int (JFloat f) = Inl OverflowError"
| "py_int (JStr s) = (case int_of_str s of None \<Rightarrow> Inl ValueError | Some n \<Rightarrow> Inr n)"
| "py_int (JList l) = Inl TypeError"
| "py_int (JObj kvs) = Inl TypeError"

text \<open>\<^verbatim>\<open>d.get(k, default)\<close> on a dict given by its items.\<close>

definition dict_get :: "(string \<times> json) list \<Rightarrow> string \<Rightarrow> json \<Rightarrow> json" where
  "dict_get kvs k dflt = (case map_of kvs k of None \<Rightarrow> dflt | Some v \<Rightarrow> v)"

subsection \<open>Printing integers and dates\<close>

definition digit_char :: "nat \<Rightarrow> char" where
  "digit_char d = ''0123456789'' ! d"

fun str_of_nat :: "nat \<Rightarrow> string" where
  "str_of_nat n =
     (if n < 10 then [digit_char n]
      else str_of_nat (n div 10) @ [digit_char (n mod 10)])"

definition str_of_int :: "int \<Rightarrow> string" where
  "str_of_int i = (if i < 0 then CHR ''-'' # str_of_nat (nat (- i)) else str_of_nat (nat i))"

text \<open>
  A calendar date, as \<^verbatim>\<open>date.today()\<close> returns it. The formats \<^verbatim>\<open>%Y-%m-%d\<close> and
  \<^verbatim>\<open>%Y%m%d\<close> pad with zeros (years from 1000 on have four digits anyway).
\<close>

record date =
  year :: nat
  month :: nat
  day :: nat

definition pad :: "nat \<Rightarrow> string \<Rightarrow> string" where
  "pad w s = replicate (w - length s) (CHR ''0'') @ s"

definition strftime_Y_m_d :: "date \<Rightarrow> string" where
  "strftime_Y_m_d d =
     pad 4 (str_of_nat (year d)) @ ''-'' @ pad 2 (str_of_nat (month d)) @ ''-'' @
     pad 2 (str_of_nat (day d))"

definition strftime_Ymd :: "date \<Rightarrow> string" where
  "strftime_Ymd d =
     pad 4 (str_of_nat (year d)) @ pad 2 (str_of_nat (month d)) @ pad 2 (str_of_nat (day d))"

definition leap :: "nat \<Rightarrow> bool" where
  "leap y = (y mod 4 = 0 \<and> (y mod 100 \<noteq> 0 \<or> y mod 400 = 0))"

definition days_in_month :: "nat \<Rightarrow> nat \<Rightarrow> nat" where
  "days_in_month y m =
     (if m = 2 then (if leap y then 29 else 28)
      else if m = 4 \<or> m = 6 \<or> m = 9 \<or> m = 11 then 30 else 31)"

text \<open>\<^verbatim>\<open>d - timedelta(days=1)\<close>\<close>

definition yesterday :: "date \<Rightarrow> date" where
  "yesterday d =
     (if 1 < day d then d\<lparr>day := day d - 1\<rparr>
      else if 1 < month d
        then \<lparr>year = year d, month = month d - 1, day = days_in_month (year d) (month d - 1)\<rparr>
      else \<lparr>year = year d - 1, month = 12, day = 31\<rparr>)"

section \<open>Configuration, HTTP calls and the run state\<close>

text \<open>
  The five values read with \<^verbatim>\<open>os.getenv\<close>; an unset variable is \<open>None\<close>. An f-string
  prints \<^verbatim>\<open>None\<close> as the text \<^verbatim>\<open>None\<close> (\<open>fstr\<close>); in a JSON body or a header it stays
  \<^verbatim>\<open>None\<close> (\<open>jopt\<close>).
\<close>

record config =
  BASE_URL :: "string option"
  USERNAME :: "string option"
  PASSWORD_HASH :: "string option"
  SELLER_NUMBER :: "string option"
  COOKIE_VALUE :: "string option"

definition fstr :: "string option \<Rightarrow> string" where
  "fstr v = (case v of None \<Rightarrow> ''None'' | Some s \<Rightarrow> s)"

definition jopt :: "string option \<Rightarrow> json" where
  "jopt v = (case v of None \<Rightarrow> JNull | Some s \<Rightarrow> JStr s)"

text \<open>
  One call of \<^verbatim>\<open>requests.post\<close> or \<^verbatim>\<open>session.post\<close> with its arguments; a keyword that
  the call does not pass is \<open>None\<close>. The answer is either an exception raised by the call
  (caught by every handler of both scripts) or a response with its status code, text,
  the value of \<^verbatim>\<open>resp.json()\<close> (\<open>None\<close> when decoding raises) and cookies.
\<close>

record request =
  url :: string
  headers :: "(string \<times> json) list"
  json_body :: json
  cookies_arg :: "(string \<times> json) list option"
  timeout :: "nat option"

datatype http_result =
    RequestException
  | Response nat string "json option" "(string \<times> json) list"

datatype level = INFO | WARNING | ERROR | SUCCESS

text \<open>
  A log record: level, message template and the values filled in. Templates are written
  without the pictograph that starts each message in the source; an f-string is
  recorded as its template with the interpolated values; the text of a caught
  exception is not recorded. Output of \<^verbatim>\<open>print\<close> is not modelled.
\<close>

datatype log_entry = Log level string "json list"

text \<open>
  The world outside the process: the configuration, the date that \<^verbatim>\<open>date.today()\<close>
  returns (the same during the whole run), and the remote side, which answers a call
  knowing all calls made before it.
\<close>

record env =
  cfg :: config
  server :: "request list \<Rightarrow> request \<Rightarrow> http_result"
  today :: date

text \<open>
  The mutable state of a run: the calls made so far, the log, the global \<^verbatim>\<open>auth_token\<close>
  and (in \<^verbatim>\<open>auto_refund.py\<close>) the global \<^verbatim>\<open>cookies\<close> dict.
\<close>

record state =
  calls :: "request list"
  logged :: "log_entry list"
  auth_token :: json
  cookies :: "(string \<times> json) list"

definition log_msg :: "level \<Rightarrow> string \<Rightarrow> json list \<Rightarrow> state \<Rightarrow> state" where
  "log_msg lv tmpl args s = s\<lparr>logged := logged s @ [Log lv tmpl args]\<rparr>"

definition post :: "env \<Rightarrow> request \<Rightarrow> state \<Rightarrow> http_result \<times> state" where
  "post e r s = (server e (calls s) r, s\<lparr>calls := calls s @ [r]\<rparr>)"

text \<open>\<^verbatim>\<open>resp.raise_for_status()\<close> raises for the status codes 400 to 599.\<close>

definition raises_for_status :: "nat \<Rightarrow> bool" where
  "raises_for_status st = (400 \<le> st \<and> st < 600)"

text \<open>\<^verbatim>\<open>d.update(new)\<close>\<close>

definition dict_update :: "(string \<times> json) list \<Rightarrow> (string \<times> json) list \<Rightarrow> (string \<times> json) list" where
  "dict_update d new = fold (\<lambda>(k, v). AList.update k v) new d"

section \<open>The script \<^verbatim>\<open>autoRefund.py\<close>\<close>

subsection \<open>Configuration check\<close>

text \<open>The names in \<^verbatim>\<open>required\<close> whose value \<^verbatim>\<open>is None\<close>; a non-empty result ends the
  process with \<^verbatim>\<open>sys.exit(1)\<close>.\<close>

definition autoRefund_missing :: "config \<Rightarrow> string list" where
  "autoRefund_missing c =
     (if BASE_URL c = None then [''BASE_URL''] else []) @
     (if USERNAME c = None then [''USERNAME''] else [])"

subsection \<open>\<^verbatim>\<open>login\<close>\<close>

definition autoRefund_login_request :: "env \<Rightarrow> request" where
  "autoRefund_login_request e =
     \<lparr>url = fstr (BASE_URL (cfg e)) @ ''/api/config-service/user/login'',
      headers =
        [(''accept'', JStr ''application/json''),
         (''content-type'', JStr ''application/json''),
         (''origin'', jopt (BASE_URL (cfg e))),
         (''cookie'', JStr (''LIFF_STORE='' @ fstr (COOKIE_VALUE (cfg e)))),
         (''referer'', JStr (fstr (BASE_URL (cfg e)) @ ''/login''))],
      json_body =
        JObj [(''account'', jopt (USERNAME (cfg e))),
              (''password'', jopt (PASSWORD_HASH (cfg e))),
              (''sellerNumber'', jopt (SELLER_NUMBER (cfg e))),
              (''smsCaptchaPass'', JBool True)],
      cookies_arg = None,
      timeout = Some 30\<rparr>"

text \<open>
  A response that cannot be decoded raises the library's \<^verbatim>\<open>JSONDecodeError\<close>, which the
  first handler catches. A decoded value that is not a dict has no \<^verbatim>\<open>get\<close>, and a token
  that is not a string fails in \<^verbatim>\<open>token[:20] + "..."\<close>: both reach the second handler,
  before \<^verbatim>\<open>auth_token\<close> is assigned.
\<close>

definition autoRefund_login :: "env \<Rightarrow> state \<Rightarrow> string option \<times> state" where
  "autoRefund_login e s =
     (case post e (autoRefund_login_request e) s of
        (RequestException, s1) \<Rightarrow> (None, log_msg ERROR ''Login HTTP fail: {}'' [] s1)
      | (Response st txt js ck, s1) \<Rightarrow>
          if raises_for_status st then (None, log_msg ERROR ''Login HTTP fail: {}'' [] s1)
          else
            (case js of
               None \<Rightarrow> (None, log_msg ERROR ''Login HTTP fail: {}'' [] s1)
             | Some (JObj kvs) \<Rightarrow>
                 if truthy (dict_get kvs ''data'' JNull) then
                   (case dict_get kvs ''data'' JNull of
                      JStr token \<Rightarrow>
                        (Some token,
                         (log_msg INFO ''Login: {}'' [JStr (take 20 token @ ''...'')] s1)
                           \<lparr>auth_token := JStr token\<rparr>)
                    | _ \<Rightarrow> (None, log_msg ERROR ''Login fail: {}'' [] s1))
                 else (None, log_msg ERROR ''No token: {}'' [JObj kvs] s1)
             | Some _ \<Rightarrow> (None, log_msg ERROR ''Login fail: {}'' [] s1)))"

subsection \<open>\<^verbatim>\<open>fetch_bills\<close>\<close>

definition autoRefund_fetch_request :: "env \<Rightarrow> json \<Rightarrow> request" where
  "autoRefund_fetch_request e token =
     \<lparr>url = fstr (BASE_URL (cfg e)) @
             ''/api/statistics-service/billDetailStatisticsController/page'',
      headers =
        [(''accept'', JStr ''application/json''),
         (''content-type'', JStr ''application/json''),
         (''authorization'', token),
         (''cookie'', JStr (''LIFF_STORE='' @ fstr (COOKIE_VALUE (cfg e))))],
      json_body =
        JObj [(''stationIds'', JList [JInt 1227]),
              (''memberCategorys'', JList [JInt 1, JInt 0]),
              (''billStatus'', JList [JInt 14]),
              (''timeS'', JStr (strftime_Y_m_d (yesterday (today e)) @ '' 00:00:00'')),
              (''timeE'', JStr (strftime_Y_m_d (today e) @ '' 23:59:59'')),
              (''current'', JInt 1),
              (''pageSize'', JInt 50),
              (''busIdType'', JInt 1)],
      cookies_arg = None,
      timeout = Some 30\<rparr>"

definition autoRefund_fetch_bills :: "env \<Rightarrow> json \<Rightarrow> state \<Rightarrow> json option \<times> state" where
  "autoRefund_fetch_bills e token s =
     (case post e (autoRefund_fetch_request e token) s of
        (RequestException, s1) \<Rightarrow> (None, log_msg ERROR ''Fetch bills HTTP fail: {}'' [] s1)
      | (Response st txt js ck, s1) \<Rightarrow>
          if raises_for_status st
          then (None, log_msg ERROR ''Fetch bills HTTP fail: {}'' [] s1)
          else
            (case js of
               None \<Rightarrow> (None, log_msg ERROR ''Fetch bills HTTP fail: {}'' [] s1)
             | Some (JObj kvs) \<Rightarrow>
                 (Some (JObj kvs),
                  log_msg INFO ''Bills OK, total: {}'' [dict_get kvs ''totalCount'' (JInt 0)] s1)
             | Some _ \<Rightarrow> (None, log_msg ERROR ''Fetch bills fail: {}'' [] s1)))"

subsection \<open>\<^verbatim>\<open>refund_bill\<close>\<close>

definition autoRefund_refund_request :: "env \<Rightarrow> json \<Rightarrow> int \<Rightarrow> int \<Rightarrow> request" where
  "autoRefund_refund_request e token bill_id amount =
     \<lparr>url = fstr (BASE_URL (cfg e)) @ ''/api/bill-service/bill/billRefund'',
      headers =
        [(''accept'', JStr ''application/json''),
         (''content-type'', JStr ''application/json''),
         (''authorization'', token),
         (''cookie'', JStr (''LIFF_STORE='' @ fstr (COOKIE_VALUE (cfg e))))],
      json_body =
        JObj [(''billId'', JInt bill_id),
              (''memberId'', JNull),
              (''refundMoney'', JInt amount),
              (''note'', JStr (''python-refund-'' @ str_of_int bill_id @ ''-'' @
                               strftime_Ymd (today e))),
              (''refundPowerDiscount'', JInt 0)],
      cookies_arg = None,
      timeout = Some 30\<rparr>"

definition autoRefund_refund_bill :: "env \<Rightarrow> int \<Rightarrow> int \<Rightarrow> state \<Rightarrow> bool \<times> state" where
  "autoRefund_refund_bill e bill_id amount s =
     (if \<not> truthy (auth_token s)
      then (False, log_msg ERROR ''No auth_token for refund'' [] s)
      else
        (case post e (autoRefund_refund_request e (auth_token s) bill_id amount) s of
           (RequestException, s1) \<Rightarrow>
             (False, log_msg ERROR ''    {} Request error: {}'' [JInt bill_id] s1)
         | (Response st txt js ck, s1) \<Rightarrow>
             if 200 \<le> st \<and> st < 300
             then (True, log_msg SUCCESS ''    {} [{}] {}''
                           [JInt bill_id, JInt (int st), JStr (take 200 txt)] s1)
             else (False, log_msg ERROR ''    {} [{}] {}''
                            [JInt bill_id, JInt (int st), JStr (take 200 txt)] s1)))"

subsection \<open>\<^verbatim>\<open>process_refunds\<close>\<close>

record tally =
  success :: nat
  failed :: nat
  skipped :: nat

text \<open>
  The body of \<^verbatim>\<open>for bill in bills\<close>: the counters before the bill, the state before
  it; the result is the exception that leaves the loop, or the counters after the bill.
  Reading \<^verbatim>\<open>bill.get\<close> of a value that is not a dict raises \<^verbatim>\<open>AttributeError\<close>.
\<close>

definition autoRefund_bill :: "env \<Rightarrow> json \<Rightarrow> tally \<Rightarrow> state \<Rightarrow> (py_exn + tally) \<times> state" where
  "autoRefund_bill e bill t s =
     (case bill of
        JObj kvs \<Rightarrow>
          if \<not> truthy (dict_get kvs ''id'' JNull) \<or>
             \<not> isinstance_int_str (dict_get kvs ''id'' JNull)
          then (Inr t, log_msg WARNING ''Invalid bill_id: {}'' [dict_get kvs ''id'' JNull] s)
          else
            (case py_int (dict_get kvs ''id'' JNull) of
               Inl x \<Rightarrow> (Inl x, s)
             | Inr bill_id_int \<Rightarrow>
                 if py_eq_zero (dict_get kvs ''actualMoney'' JNull) \<or>
                    dict_get kvs ''actualMoney'' JNull = JNull
                 then (Inr (t\<lparr>skipped := skipped t + 1\<rparr>),
                       log_msg INFO ''{}: ${} (skipped)''
                         [JInt bill_id_int, dict_get kvs ''actualMoney'' JNull] s)
                 else
                   (case py_int (dict_get kvs ''actualMoney'' JNull) of
                      Inl x \<Rightarrow>
                        (Inl x, log_msg INFO ''Processing {}: ${}''
                                  [JInt bill_id_int, dict_get kvs ''actualMoney'' JNull] s)
                    | Inr amount \<Rightarrow>
                        (case autoRefund_refund_bill e bill_id_int amount
                                (log_msg INFO ''Processing {}: ${}''
                                   [JInt bill_id_int, dict_get kvs ''actualMoney'' JNull] s) of
                           (True, s1) \<Rightarrow> (Inr (t\<lparr>success := success t + 1\<rparr>), s1)
                         | (False, s1) \<Rightarrow> (Inr (t\<lparr>failed := failed t + 1\<rparr>), s1))))
      | _ \<Rightarrow> (Inl AttributeError, s))"

fun autoRefund_loop :: "env \<Rightarrow> json list \<Rightarrow> tally \<Rightarrow> state \<Rightarrow> (py_exn + tally) \<times> state" where
  "autoRefund_loop e [] t s = (Inr t, s)"
| "autoRefund_loop e (bill # bills) t s =
     (case autoRefund_bill e bill t s of
        (Inl x, s1) \<Rightarrow> (Inl x, s1)
      | (Inr t1, s1) \<Rightarrow> autoRefund_loop e bills t1 s1)"

definition summary :: "tally \<Rightarrow> log_entry" where
  "summary t =
     Log INFO ''Success:{}, Failed:{}, Skipped:{}''
       [JInt (int (success t)), JInt (int (failed t)), JInt (int (skipped t))]"

definition autoRefund_process_refunds :: "env \<Rightarrow> json \<Rightarrow> state \<Rightarrow> (py_exn + unit) \<times> state" where
  "autoRefund_process_refunds e bill_data s =
     (case bill_data of
        JObj kvs \<Rightarrow>
          if py_eq_zero (dict_get kvs ''totalCount'' (JInt 0))
          then (Inr (),
                log_msg INFO ''No bills to process'' []
                  (log_msg INFO ''{} bills found'' [dict_get kvs ''totalCount'' (JInt 0)] s))
          else
            (case dict_get kvs ''data'' (JList []) of
               JList bills \<Rightarrow>
                 (case autoRefund_loop e bills \<lparr>success = 0, failed = 0, skipped = 0\<rparr>
                         (log_msg INFO ''{} bills found''
                            [dict_get kvs ''totalCount'' (JInt 0)] s) of
                    (Inl x, s1) \<Rightarrow> (Inl x, s1)
                  | (Inr t, s1) \<Rightarrow> (Inr (), s1\<lparr>logged := logged s1 @ [summary t]\<rparr>))
             | _ \<Rightarrow>
                 (Inr (),
                  log_msg WARNING ''bills.data is not list: {}'' []
                    (log_msg INFO ''{} bills found''
                       [dict_get kvs ''totalCount'' (JInt 0)] s)))
      | _ \<Rightarrow> (Inl AttributeError, s))"

subsection \<open>The main program\<close>

definition autoRefund_main :: "env \<Rightarrow> state \<Rightarrow> (py_exn + unit) \<times> state" where
  "autoRefund_main e s =
     (case autoRefund_login e (log_msg INFO ''Python AutoRefund v2.0'' [] s) of
        (None, s1) \<Rightarrow> (Inl (SystemExit 1), log_msg ERROR ''Login failed'' [] s1)
      | (Some token, s1) \<Rightarrow>
          if token = [] then (Inl (SystemExit 1), log_msg ERROR ''Login failed'' [] s1)
          else
            (case autoRefund_fetch_bills e (auth_token s1) s1 of
               (Some bill_data, s2) \<Rightarrow>
                 if truthy bill_data then
                   (case autoRefund_process_refunds e bill_data s2 of
                      (Inl x, s3) \<Rightarrow> (Inl x, s3)
                    | (Inr u, s3) \<Rightarrow>
                        (Inr (), log_msg INFO ''Done - {}'' [JStr (strftime_Y_m_d (today e))] s3))
                 else
                   (Inr (), log_msg INFO ''Done - {}'' [JStr (strftime_Y_m_d (today e))]
                              (log_msg ERROR ''No bill data'' [] s2))
             | (None, s2) \<Rightarrow>
                 (Inr (), log_msg INFO ''Done - {}'' [JStr (strftime_Y_m_d (today e))]
                            (log_msg ERROR ''No bill data'' [] s2))))"

text \<open>The state a process starts in, and the whole script: the configuration check at
  import time, then the main program. Creating the log directory and setting up the
  logger, which come between the two and make no call, are left out.\<close>

definition autoRefund_init :: state where
  "autoRefund_init = \<lparr>calls = [], logged = [], auth_token = JNull, cookies = []\<rparr>"

definition autoRefund_script :: "env \<Rightarrow> (py_exn + unit) \<times> state" where
  "autoRefund_script e =
     (if autoRefund_missing (cfg e) \<noteq> [] then (Inl (SystemExit 1), autoRefund_init)
      else autoRefund_main e autoRefund_init)"

text \<open>The exit status of the process: \<^verbatim>\<open>sys.exit(n)\<close> gives \<open>n\<close>, any other exception
  that nothing catches gives 1, a normal end gives 0.\<close>

fun exit_status :: "py_exn + unit \<Rightarrow> nat" where
  "exit_status (Inr u) = 0"
| "exit_status (Inl (SystemExit n)) = n"
| "exit_status (Inl x) = 1"

section \<open>The script \<^verbatim>\<open>auto_refund.py\<close>\<close>

subsection \<open>Configuration check\<close>

text \<open>\<^verbatim>\<open>all([BASE_URL, USERNAME, PASSWORD_HASH])\<close>: each of the three is set and not empty;
  otherwise the process ends with \<^verbatim>\<open>sys.exit(1)\<close>.\<close>

definition auto_refund_config_ok :: "config \<Rightarrow> bool" where
  "auto_refund_config_ok c =
     (truthy (jopt (BASE_URL c)) \<and> truthy (jopt (USERNAME c)) \<and> truthy (jopt (PASSWORD_HASH c)))"

subsection \<open>\<^verbatim>\<open>AuthManager.login\<close>\<close>

definition browser_headers :: "(string \<times> json) list" where
  \<open>browser_headers =
     [(''sec-ch-ua'',
       JStr ''"Not(A:Brand";v="8", "Chromium";v="144", "Google Chrome";v="144"''),
      (''sec-ch-ua-mobile'', JStr ''?0''),
      (''sec-ch-ua-platform'', JStr ''"macOS"''),
      (''sec-fetch-dest'', JStr ''empty''),
      (''sec-fetch-mode'', JStr ''cors''),
      (''sec-fetch-site'', JStr ''same-origin''),
      (''user-agent'',
       JStr (''Mozilla/5.0 (Macintosh; Intel Mac OS X 10_15_7) AppleWebKit/537.36 '' @
             ''(KHTML, like Gecko) Chrome/144.0.0.0 Safari/537.36''))]\<close>

definition auto_refund_login_request :: "env \<Rightarrow> state \<Rightarrow> request" where
  "auto_refund_login_request e s =
     \<lparr>url = fstr (BASE_URL (cfg e)) @ ''/api/config-service/user/login'',
      headers =
        [(''accept'', JStr ''application/json''),
         (''accept-language'', JStr ''zh-TW''),
         (''content-type'', JStr ''application/json''),
         (''origin'', jopt (BASE_URL (cfg e))),
         (''priority'', JStr ''u=1, i''),
         (''referer'', JStr (fstr (BASE_URL (cfg e)) @ ''/login''))] @ browser_headers,
      json_body =
        JObj [(''account'', jopt (USERNAME (cfg e))),
              (''password'', jopt (PASSWORD_HASH (cfg e))),
              (''sellerNumber'', jopt (SELLER_NUMBER (cfg e))),
              (''smsCaptchaPass'', JBool True)],
      cookies_arg = Some (cookies s),
      timeout = None\<rparr>"

text \<open>\<^verbatim>\<open>'data' in x\<close>: a key of a dict, an element of a list, a substring of a string;
  any other value is not iterable.\<close>

fun contains_data :: "json \<Rightarrow> py_exn + bool" where
  "contains_data (JObj kvs) = Inr (map_of kvs ''data'' \<noteq> None)"
| "contains_data (JList l) = Inr (JStr ''data'' \<in> set l)"
| "contains_data (JStr t) = Inr (sublist ''data'' t)"
| "contains_data _ = Inl TypeError"

text \<open>
  Every exception inside the \<^verbatim>\<open>try\<close> is caught by the one handler. \<^verbatim>\<open>auth_token\<close> and
  \<^verbatim>\<open>cookies\<close> are assigned before the token is sliced for the log line, so a truthy
  token that cannot be sliced is stored although the login fails; a non-empty list can
  be sliced and is accepted. Indexing a list or a string with \<^verbatim>\<open>'data'\<close> raises. The
  session's own cookie jar is part of the remote side.
\<close>

definition auto_refund_login :: "env \<Rightarrow> state \<Rightarrow> bool \<times> state" where
  "auto_refund_login e s =
     (case post e (auto_refund_login_request e s) (log_msg INFO ''Logging in...'' [] s) of
        (RequestException, s1) \<Rightarrow> (False, log_msg ERROR ''Login error: {}'' [] s1)
      | (Response st txt js ck, s1) \<Rightarrow>
          if raises_for_status st then (False, log_msg ERROR ''Login error: {}'' [] s1)
          else
            (case js of
               None \<Rightarrow> (False, log_msg ERROR ''Login error: {}'' [] s1)
             | Some login_data \<Rightarrow>
                 (case contains_data login_data of
                    Inl x \<Rightarrow> (False, log_msg ERROR ''Login error: {}'' [] s1)
                  | Inr False \<Rightarrow> (False, log_msg ERROR ''No token: {}'' [login_data] s1)
                  | Inr True \<Rightarrow>
                      (case login_data of
                         JObj kvs \<Rightarrow>
                           if truthy (dict_get kvs ''data'' JNull) then
                             (case dict_get kvs ''data'' JNull of
                                JStr t \<Rightarrow>
                                  (True, log_msg INFO ''Login OK! Token: {}...'' [JStr (take 20 t)]
                                           (s1\<lparr>auth_token := JStr t,
                                               cookies := dict_update (cookies s1) ck\<rparr>))
                              | JList l \<Rightarrow>
                                  (True, log_msg INFO ''Login OK! Token: {}...'' [JList (take 20 l)]
                                           (s1\<lparr>auth_token := JList l,
                                               cookies := dict_update (cookies s1) ck\<rparr>))
                              | tok \<Rightarrow>
                                  (False, log_msg ERROR ''Login error: {}'' []
                                            (s1\<lparr>auth_token := tok,
                                                cookies := dict_update (cookies s1) ck\<rparr>)))
                           else (False, log_msg ERROR ''No token: {}'' [login_data] s1)
                       | _ \<Rightarrow> (False, log_msg ERROR ''Login error: {}'' [] s1)))))"

subsection \<open>\<^verbatim>\<open>get_headers\<close>, \<^verbatim>\<open>get_today_range\<close>, \<^verbatim>\<open>fetch_bills\<close>\<close>

definition get_headers :: "env \<Rightarrow> state \<Rightarrow> (string \<times> json) list" where
  "get_headers e s =
     [(''accept'', JStr ''application/json''),
      (''accept-language'', JStr ''zh-TW''),
      (''authorization'', auth_token s),
      (''content-type'', JStr ''application/json''),
      (''origin'', jopt (BASE_URL (cfg e))),
      (''priority'', JStr ''u=1, i''),
      (''referer'', JStr (fstr (BASE_URL (cfg e)) @ ''/Operation/ChargingOrder/OrderManagement''))]
     @ browser_headers"

definition get_today_range :: "env \<Rightarrow> string \<times> string" where
  "get_today_range e =
     (strftime_Y_m_d (today e) @ '' 00:00:00'', strftime_Y_m_d (today e) @ '' 23:59:59'')"

definition auto_refund_fetch_request :: "env \<Rightarrow> state \<Rightarrow> request" where
  "auto_refund_fetch_request e s =
     \<lparr>url = fstr (BASE_URL (cfg e)) @
             ''/api/statistics-service/billDetailStatisticsController/page'',
      headers = get_headers e s,
      json_body =
        JObj [(''stationIds'', JList [JInt 1227]),
              (''fleetIds'', JNull),
              (''memberCategorys'', JList [JInt 1, JInt 0]),
              (''billStatus'', JList [JInt 14]),
              (''pileIds'', JNull),
              (''groupIds'', JNull),
              (''timeS'', JStr (fst (get_today_range e))),
              (''timeE'', JStr (snd (get_today_range e))),
              (''current'', JInt 1),
              (''total'', JInt 0),
              (''pageSize'', JInt 50),
              (''busIdType'', JInt 1)],
      cookies_arg = Some (cookies s),
      timeout = None\<rparr>"

definition auto_refund_fetch_bills :: "env \<Rightarrow> state \<Rightarrow> json option \<times> state" where
  "auto_refund_fetch_bills e s =
     (case post e (auto_refund_fetch_request e s) s of
        (RequestException, s1) \<Rightarrow> (None, log_msg ERROR ''Fetch failed: {}'' [] s1)
      | (Response st txt js ck, s1) \<Rightarrow>
          if raises_for_status st then (None, log_msg ERROR ''Fetch failed: {}'' [] s1)
          else
            (case js of
               None \<Rightarrow> (None, log_msg ERROR ''Fetch failed: {}'' [] s1)
             | Some data \<Rightarrow>
                 (Some data,
                  log_msg INFO ''Bills: {} -> {}''
                    [JStr (fst (get_today_range e)), JStr (snd (get_today_range e))] s1)))"

subsection \<open>\<^verbatim>\<open>refund_bill\<close>\<close>

definition auto_refund_refund_request :: "env \<Rightarrow> state \<Rightarrow> json \<Rightarrow> int \<Rightarrow> request" where
  "auto_refund_refund_request e s bill_id amount =
     \<lparr>url = fstr (BASE_URL (cfg e)) @ ''/api/bill-service/bill/billRefund'',
      headers = get_headers e s,
      json_body =
        JObj [(''billId'', bill_id),
              (''memberId'', JNull),
              (''refundMoney'', JInt amount),
              (''note'', JStr ''auto-refund''),
              (''refundPowerDiscount'', JInt 0)],
      cookies_arg = Some (cookies s),
      timeout = None\<rparr>"

text \<open>The payload, with \<^verbatim>\<open>int(amount)\<close>, is built before the \<^verbatim>\<open>try\<close>: an amount that
  \<^verbatim>\<open>int\<close> refuses raises out of the function.\<close>

definition auto_refund_refund_bill :: "env \<Rightarrow> json \<Rightarrow> json \<Rightarrow> state \<Rightarrow> (py_exn + bool) \<times> state" where
  "auto_refund_refund_bill e bill_id amount s =
     (case py_int amount of
        Inl x \<Rightarrow> (Inl x, s)
      | Inr a \<Rightarrow>
          (case post e (auto_refund_refund_request e s bill_id a) s of
             (RequestException, s1) \<Rightarrow>
               (Inr False, log_msg ERROR ''    Refund {}: {}'' [bill_id] s1)
           | (Response st txt js ck, s1) \<Rightarrow>
               if raises_for_status st
               then (Inr False, log_msg ERROR ''    Refund {}: {}'' [bill_id] s1)
               else (Inr True, log_msg INFO ''    Refunded: {}'' [bill_id] s1)))"

subsection \<open>\<^verbatim>\<open>process_refunds\<close>\<close>

text \<open>The items a \<^verbatim>\<open>for\<close> loop draws from a value: the elements of a list, the keys of a
  dict, the characters of a string; any other value is not iterable.\<close>

fun py_iter :: "json \<Rightarrow> py_exn + json list" where
  "py_iter (JList l) = Inr l"
| "py_iter (JObj kvs) = Inr (map (\<lambda>kv. JStr (fst kv)) kvs)"
| "py_iter (JStr t) = Inr (map (\<lambda>c. JStr [c]) t)"
| "py_iter _ = Inl TypeError"

text \<open>The loop body; the counters are \<^verbatim>\<open>(success, failed)\<close>.\<close>

definition auto_refund_bill ::
  "env \<Rightarrow> json \<Rightarrow> nat \<times> nat \<Rightarrow> state \<Rightarrow> (py_exn + nat \<times> nat) \<times> state" where
  "auto_refund_bill e bill t s =
     (case bill of
        JObj kvs \<Rightarrow>
          if truthy (dict_get kvs ''id'' JNull) \<and> dict_get kvs ''actualMoney'' JNull \<noteq> JNull
          then
            (case auto_refund_refund_bill e (dict_get kvs ''id'' JNull)
                    (dict_get kvs ''actualMoney'' JNull)
                    (log_msg INFO ''{}: ${}''
                       [dict_get kvs ''id'' JNull, dict_get kvs ''actualMoney'' JNull] s) of
               (Inl x, s1) \<Rightarrow> (Inl x, s1)
             | (Inr True, s1) \<Rightarrow> (Inr (fst t + 1, snd t), s1)
             | (Inr False, s1) \<Rightarrow> (Inr (fst t, snd t + 1), s1))
          else (Inr t, s)
      | _ \<Rightarrow> (Inl AttributeError, s))"

fun auto_refund_loop ::
  "env \<Rightarrow> json list \<Rightarrow> nat \<times> nat \<Rightarrow> state \<Rightarrow> (py_exn + nat \<times> nat) \<times> state" where
  "auto_refund_loop e [] t s = (Inr t, s)"
| "auto_refund_loop e (bill # bills) t s =
     (case auto_refund_bill e bill t s of
        (Inl x, s1) \<Rightarrow> (Inl x, s1)
      | (Inr t1, s1) \<Rightarrow> auto_refund_loop e bills t1 s1)"

definition auto_refund_process_refunds :: "env \<Rightarrow> json \<Rightarrow> state \<Rightarrow> (py_exn + unit) \<times> state" where
  "auto_refund_process_refunds e bill_data s =
     (case bill_data of
        JObj kvs \<Rightarrow>
          if py_eq_zero (dict_get kvs ''totalCount'' (JInt 0))
          then (Inr (),
                log_msg INFO ''No refunds needed'' []
                  (log_msg INFO ''{} bills'' [dict_get kvs ''totalCount'' (JInt 0)] s))
          else
            (case py_iter (dict_get kvs ''data'' (JList [])) of
               Inl x \<Rightarrow>
                 (Inl x, log_msg INFO ''{} bills'' [dict_get kvs ''totalCount'' (JInt 0)] s)
             | Inr bills \<Rightarrow>
                 (case auto_refund_loop e bills (0, 0)
                         (log_msg INFO ''{} bills'' [dict_get kvs ''totalCount'' (JInt 0)] s) of
                    (Inl x, s1) \<Rightarrow> (Inl x, s1)
                  | (Inr t, s1) \<Rightarrow>
                      (Inr (),
                       log_msg INFO ''Success: {}, Failed: {}''
                         [JInt (int (fst t)), JInt (int (snd t))] s1)))
      | _ \<Rightarrow> (Inl AttributeError, s))"

subsection \<open>\<^verbatim>\<open>main\<close>\<close>

definition auto_refund_main :: "env \<Rightarrow> state \<Rightarrow> (py_exn + unit) \<times> state" where
  "auto_refund_main e s =
     (case auto_refund_login e
             (log_msg INFO ''Auto-refund {}'' [JStr (strftime_Y_m_d (today e))] s) of
        (False, s1) \<Rightarrow> (Inr (), log_msg ERROR ''Login failed'' [] s1)
      | (True, s1) \<Rightarrow>
          (case auto_refund_fetch_bills e s1 of
             (Some bill_data, s2) \<Rightarrow>
               if truthy bill_data then
                 (case auto_refund_process_refunds e bill_data s2 of
                    (Inl x, s3) \<Rightarrow> (Inl x, s3)
                  | (Inr u, s3) \<Rightarrow> (Inr (), log_msg INFO ''Done!'' [] s3))
               else (Inr (), log_msg INFO ''Done!'' [] s2)
           | (None, s2) \<Rightarrow> (Inr (), log_msg INFO ''Done!'' [] s2)))"

text \<open>The state a process starts in (the global \<^verbatim>\<open>cookies\<close> holds the configured
  cookie), and the whole script.\<close>

definition auto_refund_init :: "env \<Rightarrow> state" where
  "auto_refund_init e =
     \<lparr>calls = [], logged = [], auth_token = JNull,
      cookies = [(''LIFF_STORE'', jopt (COOKIE_VALUE (cfg e)))]\<rparr>"

definition auto_refund_script :: "env \<Rightarrow> (py_exn + unit) \<times> state" where
  "auto_refund_script e =
     (if \<not> auto_refund_config_ok (cfg e) then (Inl (SystemExit 1), auto_refund_init e)
      else auto_refund_main e (auto_refund_init e))"

section \<open>Vocabulary of the properties\<close>

text \<open>The two fields of a bill record that the loops read, \<^verbatim>\<open>bill.get("id")\<close> and
  \<^verbatim>\<open>bill.get("actualMoney")\<close>; a missing key reads as \<^verbatim>\<open>None\<close>.\<close>

abbreviation id_of :: "(string \<times> json) list \<Rightarrow> json" where
  "id_of kvs \<equiv> dict_get kvs ''id'' JNull"

abbreviation amount_of :: "(string \<times> json) list \<Rightarrow> json" where
  "amount_of kvs \<equiv> dict_get kvs ''actualMoney'' JNull"

text \<open>A bill whose id passes the test of \<^verbatim>\<open>autoRefund.py\<close> (truthy, an \<^verbatim>\<open>int\<close> or a
  \<^verbatim>\<open>str\<close>), and a bill whose amount is \<^verbatim>\<open>0\<close> or \<^verbatim>\<open>None\<close>.\<close>

definition valid_id :: "json \<Rightarrow> bool" where
  "valid_id bill =
     (case bill of
        JObj kvs \<Rightarrow> truthy (id_of kvs) \<and> isinstance_int_str (id_of kvs)
      | _ \<Rightarrow> False)"

definition zero_or_null_amount :: "json \<Rightarrow> bool" where
  "zero_or_null_amount bill =
     (case bill of
        JObj kvs \<Rightarrow> py_eq_zero (amount_of kvs) \<or> amount_of kvs = JNull
      | _ \<Rightarrow> False)"

text \<open>A bill that \<^verbatim>\<open>auto_refund.py\<close> passes to \<^verbatim>\<open>refund_bill\<close>: truthy id, amount not
  \<^verbatim>\<open>None\<close>.\<close>

definition selected :: "json \<Rightarrow> bool" where
  "selected bill =
     (case bill of
        JObj kvs \<Rightarrow> truthy (id_of kvs) \<and> amount_of kvs \<noteq> JNull
      | _ \<Rightarrow> False)"

text \<open>
  \<open>q\<close> is the call that \<^verbatim>\<open>autoRefund.py\<close> makes for \<open>bill\<close> under the given token: the
  bill passed the id test and the amount test, \<^verbatim>\<open>int\<close> accepted both values, and \<open>q\<close>
  is the refund request built from them.
\<close>

definition autoRefund_request_for :: "env \<Rightarrow> json \<Rightarrow> request \<Rightarrow> json \<Rightarrow> bool" where
  "autoRefund_request_for e token q bill =
     (case bill of
        JObj kvs \<Rightarrow>
          (case py_int (id_of kvs) of
             Inr i \<Rightarrow>
               (case py_int (amount_of kvs) of
                  Inr a \<Rightarrow>
                    valid_id bill \<and> \<not> zero_or_null_amount bill \<and>
                    q = autoRefund_refund_request e token i a
                | Inl x \<Rightarrow> False)
           | Inl x \<Rightarrow> False)
      | _ \<Rightarrow> False)"

text \<open>The same for \<^verbatim>\<open>auto_refund.py\<close>, whose request carries the id as it came and reads
  the token and the cookies from the state.\<close>

definition auto_refund_request_for :: "env \<Rightarrow> state \<Rightarrow> request \<Rightarrow> json \<Rightarrow> bool" where
  "auto_refund_request_for e s q bill =
     (case bill of
        JObj kvs \<Rightarrow>
          (case py_int (amount_of kvs) of
             Inr a \<Rightarrow> selected bill \<and> q = auto_refund_refund_request e s (id_of kvs) a
           | Inl x \<Rightarrow> False)
      | _ \<Rightarrow> False)"

text \<open>The fields of a request body.\<close>

definition body_field :: "request \<Rightarrow> string \<Rightarrow> json" where
  "body_field q k = (case json_body q of JObj kvs \<Rightarrow> dict_get kvs k JNull | _ \<Rightarrow> JNull)"

text \<open>The calls a function added to those made before it.\<close>

definition new_calls :: "state \<Rightarrow> state \<Rightarrow> request list" where
  "new_calls s s' = drop (length (calls s)) (calls s')"

subsection \<open>Concrete runs\<close>

definition demo_cfg :: config where
  "demo_cfg =
     \<lparr>BASE_URL = Some ''https://ev.example'', USERNAME = Some ''ops'',
      PASSWORD_HASH = Some ''5f4dcc3b'', SELLER_NUMBER = Some ''S1'',
      COOKIE_VALUE = Some ''c0''\<rparr>"

definition demo_date :: date where
  "demo_date = \<lparr>year = 2026, month = 3, day = 1\<rparr>"

text \<open>A remote side that accepts the login, returns two bills (id 501 with amount 100,
  id 502 with amount 0) and accepts every refund.\<close>

definition demo_bills :: "json list" where
  "demo_bills =
     [JObj [(''id'', JInt 501), (''actualMoney'', JInt 100)],
      JObj [(''id'', JInt 502), (''actualMoney'', JInt 0)]]"

text \<open>Two bills with the amounts 12.5 and -12.5.\<close>

definition float_bills :: "json list" where
  "float_bills =
     [JObj [(''id'', JInt 7), (''actualMoney'', JFloat (Finite (25 / 2)))],
      JObj [(''id'', JInt 8), (''actualMoney'', JFloat (Finite (- (25 / 2))))]]"

definition demo_page :: json where
  "demo_page = JObj [(''totalCount'', JInt 2), (''data'', JList demo_bills)]"

definition demo_server :: "request list \<Rightarrow> request \<Rightarrow> http_result" where
  "demo_server h r =
     (if url r = ''https://ev.example/api/config-service/user/login''
      then Response 200 ''login'' (Some (JObj [(''data'', JStr ''tok_abc123'')])) []
      else if url r =
              ''https://ev.example/api/statistics-service/billDetailStatisticsController/page''
      then Response 200 ''page'' (Some demo_page) []
      else Response 200 ''ok'' None [])"

definition demo_env :: env where
  "demo_env = \<lparr>cfg = demo_cfg, server = demo_server, today = demo_date\<rparr>"

text \<open>A remote side that cannot be reached.\<close>

definition down_env :: env where
  "down_env = \<lparr>cfg = demo_cfg, server = (\<lambda>h r. RequestException), today = demo_date\<rparr>"

text \<open>A state after a successful login.\<close>

definition logged_in :: state where
  "logged_in =
     \<lparr>calls = [], logged = [], auth_token = JStr ''tok_abc123'',
      cookies = [(''LIFF_STORE'', JStr ''c0'')]\<rparr>"

section \<open>What the loop of \<^verbatim>\<open>autoRefund.py\<close> does to the state\<close>

lemma log_msg_simps [simp]:
  "calls (log_msg lv tm ar s) = calls s"
  "auth_token (log_msg lv tm ar s) = auth_token s"
  "cookies (log_msg lv tm ar s) = cookies s"
  "logged (log_msg lv tm ar s) = logged s @ [Log lv tm ar]"
  by (simp_all add: log_msg_def)

lemma autoRefund_refund_bill_effect:
  assumes "autoRefund_refund_bill e i a s = (b, s')"
  shows "auth_token s' = auth_token s"
    and "cookies s' = cookies s"
    and "calls s' =
           (if truthy (auth_token s)
            then calls s @ [autoRefund_refund_request e (auth_token s) i a] else calls s)"
  using assms
  by (auto simp: autoRefund_refund_bill_def post_def split: if_splits http_result.splits)

lemma autoRefund_refund_bill_cases:
  "\<exists>b s1. autoRefund_refund_bill e i a s = (b, s1)"
  by (cases "autoRefund_refund_bill e i a s") auto

lemma autoRefund_request_forD:
  "autoRefund_request_for e token q bill \<Longrightarrow>
   \<exists>kvs i a. bill = JObj kvs \<and> py_int (id_of kvs) = Inr i \<and> py_int (amount_of kvs) = Inr a \<and>
     valid_id bill \<and> \<not> zero_or_null_amount bill \<and> q = autoRefund_refund_request e token i a"
  by (auto simp: autoRefund_request_for_def split: json.splits sum.splits)

lemma autoRefund_bill_effect:
  assumes "autoRefund_bill e bill t s = (r, s')"
  shows "auth_token s' = auth_token s \<and>
         (calls s' = calls s \<or>
          (\<exists>q. calls s' = calls s @ [q] \<and> autoRefund_request_for e (auth_token s) q bill))"
proof (cases bill)
  case (JObj kvs)
  show ?thesis
  proof (cases "valid_id bill \<and> \<not> zero_or_null_amount bill")
    case False
    with JObj assms show ?thesis
      by (auto simp: autoRefund_bill_def valid_id_def zero_or_null_amount_def
               split: if_splits sum.splits)
  next
    case True
    show ?thesis
    proof (cases "py_int (id_of kvs)")
      case (Inl x)
      with JObj True assms show ?thesis
        by (auto simp: autoRefund_bill_def valid_id_def zero_or_null_amount_def)
    next
      case (Inr i)
      note i = this
      show ?thesis
      proof (cases "py_int (amount_of kvs)")
        case (Inl x)
        with JObj True i assms show ?thesis
          by (auto simp: autoRefund_bill_def valid_id_def zero_or_null_amount_def)
      next
        case (Inr a)
        obtain b s1 where rb:
          "autoRefund_refund_bill e i a
             (log_msg INFO ''Processing {}: ${}'' [JInt i, amount_of kvs] s) = (b, s1)"
          by (cases "autoRefund_refund_bill e i a
             (log_msg INFO ''Processing {}: ${}'' [JInt i, amount_of kvs] s)") auto
        from JObj True i Inr assms rb have s': "s' = s1"
          by (auto simp: autoRefund_bill_def valid_id_def zero_or_null_amount_def
                   split: if_splits bool.splits)
        from autoRefund_refund_bill_effect[OF rb] s' JObj True i Inr show ?thesis
          by (auto simp: autoRefund_request_for_def)
      qed
    qed
  qed
qed (use assms in \<open>auto simp: autoRefund_bill_def\<close>)

lemma autoRefund_loop_effect:
  assumes "autoRefund_loop e bills t s = (r, s')"
  shows "auth_token s' = auth_token s \<and>
         (\<exists>rs bs. calls s' = calls s @ rs \<and> subseq bs bills \<and>
                  list_all2 (autoRefund_request_for e (auth_token s)) rs bs)"
  using assms
proof (induction bills arbitrary: t s)
  case Nil
  then show ?case by auto
next
  case (Cons bill bills)
  obtain r1 s1 where step: "autoRefund_bill e bill t s = (r1, s1)"
    by (cases "autoRefund_bill e bill t s") auto
  note eff = autoRefund_bill_effect[OF step]
  show ?case
  proof (cases r1)
    case (Inl x)
    with Cons.prems step have "s' = s1" by simp
    with eff show ?thesis
    proof (elim conjE disjE exE)
      fix q assume "calls s1 = calls s @ [q]" "autoRefund_request_for e (auth_token s) q bill"
        "auth_token s1 = auth_token s"
      with \<open>s' = s1\<close> have "calls s' = calls s @ [q] \<and> subseq [bill] (bill # bills) \<and>
          list_all2 (autoRefund_request_for e (auth_token s)) [q] [bill]" by simp
      with \<open>s' = s1\<close> \<open>auth_token s1 = auth_token s\<close> show ?thesis by blast
    next
      assume "calls s1 = calls s" "auth_token s1 = auth_token s"
      with \<open>s' = s1\<close> have "calls s' = calls s @ [] \<and> subseq [] (bill # bills) \<and>
          list_all2 (autoRefund_request_for e (auth_token s)) [] []" by simp
      with \<open>s' = s1\<close> \<open>auth_token s1 = auth_token s\<close> show ?thesis by blast
    qed
  next
    case (Inr t1)
    with Cons.prems step have rest: "autoRefund_loop e bills t1 s1 = (r, s')" by simp
    from Cons.IH[OF rest] eff obtain rs bs where
      tok: "auth_token s' = auth_token s" and
      c: "calls s' = calls s1 @ rs" and sb: "subseq bs bills" and
      la: "list_all2 (autoRefund_request_for e (auth_token s)) rs bs"
      by auto
    from eff show ?thesis
    proof (elim conjE disjE exE)
      assume "calls s1 = calls s"
      with c sb la have "calls s' = calls s @ rs \<and> subseq bs (bill # bills) \<and>
          list_all2 (autoRefund_request_for e (auth_token s)) rs bs"
        by (simp add: list_emb_Cons)
      with tok show ?thesis by blast
    next
      fix q assume "calls s1 = calls s @ [q]" "autoRefund_request_for e (auth_token s) q bill"
      with c sb la have "calls s' = calls s @ (q # rs) \<and> subseq (bill # bs) (bill # bills) \<and>
          list_all2 (autoRefund_request_for e (auth_token s)) (q # rs) (bill # bs)"
        by simp
      with tok show ?thesis by blast
    qed
  qed
qed

lemma autoRefund_loop_append:
  "autoRefund_loop e (xs @ ys) t s =
     (case autoRefund_loop e xs t s of
        (Inl x, s1) \<Rightarrow> (Inl x, s1)
      | (Inr t1, s1) \<Rightarrow> autoRefund_loop e ys t1 s1)"
  by (induction xs arbitrary: t s) (auto split: prod.splits sum.splits)

lemma autoRefund_bill_tally:
  assumes "autoRefund_bill e bill t s = (Inr t', s')"
  shows "success t' + failed t' + skipped t' =
           success t + failed t + skipped t + (if valid_id bill then 1 else 0)"
    and "skipped t' =
           skipped t + (if valid_id bill \<and> zero_or_null_amount bill then 1 else 0)"
proof -
  have "success t' + failed t' + skipped t' =
           success t + failed t + skipped t + (if valid_id bill then 1 else 0) \<and>
        skipped t' =
           skipped t + (if valid_id bill \<and> zero_or_null_amount bill then 1 else 0)"
  proof (cases bill)
    case (JObj kvs)
    show ?thesis
    proof (cases "valid_id bill")
      case False
      with JObj assms show ?thesis
        by (auto simp: autoRefund_bill_def valid_id_def split: if_splits)
    next
      case True
      then obtain i where i: "py_int (id_of kvs) = Inr i"
        using JObj assms by (cases "py_int (id_of kvs)") (auto simp: autoRefund_bill_def valid_id_def)
      show ?thesis
      proof (cases "zero_or_null_amount bill")
        case z: True
        with JObj True i assms show ?thesis
          by (auto simp: autoRefund_bill_def valid_id_def zero_or_null_amount_def)
      next
        case z: False
        then obtain a where a: "py_int (amount_of kvs) = Inr a"
          using JObj True i assms
          by (cases "py_int (amount_of kvs)")
             (auto simp: autoRefund_bill_def valid_id_def zero_or_null_amount_def)
        obtain b s1 where rb:
          "autoRefund_refund_bill e i a
             (log_msg INFO ''Processing {}: ${}'' [JInt i, amount_of kvs] s) = (b, s1)"
          using autoRefund_refund_bill_cases by blast
        from JObj True z i a rb assms show ?thesis
          by (cases b) (auto simp: autoRefund_bill_def valid_id_def zero_or_null_amount_def)
      qed
    qed
  qed (use assms in \<open>auto simp: autoRefund_bill_def\<close>)
  then show "success t' + failed t' + skipped t' =
           success t + failed t + skipped t + (if valid_id bill then 1 else 0)"
    and "skipped t' =
           skipped t + (if valid_id bill \<and> zero_or_null_amount bill then 1 else 0)"
    by blast+
qed

lemma autoRefund_loop_tally:
  assumes "autoRefund_loop e bills t s = (Inr t', s')"
  shows "success t' + failed t' + skipped t' =
           success t + failed t + skipped t + length (filter valid_id bills) \<and>
         skipped t' =
           skipped t + length (filter (\<lambda>b. valid_id b \<and> zero_or_null_amount b) bills)"
  using assms
proof (induction bills arbitrary: t s)
  case Nil
  then show ?case by simp
next
  case (Cons bill bills)
  obtain r1 s1 where step: "autoRefund_bill e bill t s = (r1, s1)"
    by (cases "autoRefund_bill e bill t s") auto
  with Cons.prems obtain t1 where r1: "r1 = Inr t1"
    and rest: "autoRefund_loop e bills t1 s1 = (Inr t', s')"
    by (cases r1) auto
  from step r1 have st: "autoRefund_bill e bill t s = (Inr t1, s1)" by simp
  have a: "success t1 + failed t1 + skipped t1 =
           success t + failed t + skipped t + (if valid_id bill then 1 else 0)"
    and b: "skipped t1 =
           skipped t + (if valid_id bill \<and> zero_or_null_amount bill then 1 else 0)"
    using autoRefund_bill_tally[OF st] by blast+
  have c: "success t' + failed t' + skipped t' =
           success t1 + failed t1 + skipped t1 + length (filter valid_id bills)"
    and d: "skipped t' =
           skipped t1 + length (filter (\<lambda>b. valid_id b \<and> zero_or_null_amount b) bills)"
    using Cons.IH[OF rest] by blast+
  have "success t' + failed t' + skipped t' =
           success t + failed t + skipped t + length (filter valid_id (bill # bills))"
    unfolding c a by simp
  moreover have "skipped t' =
           skipped t + length (filter (\<lambda>b. valid_id b \<and> zero_or_null_amount b) (bill # bills))"
    unfolding d b by simp
  ultimately show ?case by blast
qed

section \<open>What the loop of \<^verbatim>\<open>auto_refund.py\<close> does to the state\<close>

lemma auto_refund_refund_bill_effect:
  assumes "auto_refund_refund_bill e bid amt s = (r, s')"
  shows "auth_token s' = auth_token s \<and> cookies s' = cookies s \<and>
         (case py_int amt of
            Inl x \<Rightarrow> r = Inl x \<and> s' = s
          | Inr a \<Rightarrow> (\<exists>b. r = Inr b) \<and> calls s' = calls s @ [auto_refund_refund_request e s bid a])"
  using assms
  by (auto simp: auto_refund_refund_bill_def post_def split: sum.splits if_splits http_result.splits)

lemma auto_refund_refund_bill_cases:
  "\<exists>r s1. auto_refund_refund_bill e bid amt s = (r, s1)"
  by (cases "auto_refund_refund_bill e bid amt s") auto

lemma auto_refund_refund_request_cong:
  "auth_token s1 = auth_token s \<Longrightarrow> cookies s1 = cookies s \<Longrightarrow>
   auto_refund_refund_request e s1 bid a = auto_refund_refund_request e s bid a"
  by (simp add: auto_refund_refund_request_def get_headers_def)

lemma auto_refund_request_for_cong:
  assumes "auth_token s1 = auth_token s" and "cookies s1 = cookies s"
  shows "auto_refund_request_for e s1 = auto_refund_request_for e s"
proof -
  have h: "\<And>bid a. auto_refund_refund_request e s1 bid a = auto_refund_refund_request e s bid a"
    using assms by (rule auto_refund_refund_request_cong)
  show ?thesis
    by (intro ext) (unfold auto_refund_request_for_def h, rule refl)
qed

lemma auto_refund_request_forD:
  "auto_refund_request_for e s q bill \<Longrightarrow>
   \<exists>kvs a. bill = JObj kvs \<and> py_int (amount_of kvs) = Inr a \<and> selected bill \<and>
     q = auto_refund_refund_request e s (id_of kvs) a"
  by (auto simp: auto_refund_request_for_def split: json.splits sum.splits)

lemma auto_refund_bill_effect:
  assumes "auto_refund_bill e bill t s = (r, s')"
  shows "auth_token s' = auth_token s \<and> cookies s' = cookies s \<and>
         (calls s' = calls s \<or>
          (\<exists>q. calls s' = calls s @ [q] \<and> auto_refund_request_for e s q bill))"
proof (cases bill)
  case (JObj kvs)
  show ?thesis
  proof (cases "selected bill")
    case False
    with JObj assms show ?thesis
      by (auto simp: auto_refund_bill_def selected_def)
  next
    case True
    let ?s0 = "log_msg INFO ''{}: ${}'' [id_of kvs, amount_of kvs] s"
    obtain r1 s1 where rb:
      "auto_refund_refund_bill e (id_of kvs) (amount_of kvs) ?s0 = (r1, s1)"
      by (cases "auto_refund_refund_bill e (id_of kvs) (amount_of kvs) ?s0") auto
    from JObj True assms rb have s': "s' = s1"
      by (auto simp: auto_refund_bill_def selected_def split: sum.splits bool.splits)
    have rq: "\<And>a. auto_refund_refund_request e ?s0 (id_of kvs) a =
                   auto_refund_refund_request e s (id_of kvs) a"
      by (rule auto_refund_refund_request_cong) simp_all
    from auto_refund_refund_bill_effect[OF rb] s' JObj True rq show ?thesis
      by (auto simp: auto_refund_request_for_def split: sum.splits)
  qed
qed (use assms in \<open>auto simp: auto_refund_bill_def\<close>)

lemma auto_refund_loop_effect:
  assumes "auto_refund_loop e bills t s = (r, s')"
  shows "auth_token s' = auth_token s \<and> cookies s' = cookies s \<and>
         (\<exists>rs bs. calls s' = calls s @ rs \<and> subseq bs bills \<and>
                  list_all2 (auto_refund_request_for e s) rs bs)"
  using assms
proof (induction bills arbitrary: t s)
  case Nil
  then show ?case by auto
next
  case (Cons bill bills)
  obtain r1 s1 where step: "auto_refund_bill e bill t s = (r1, s1)"
    by (cases "auto_refund_bill e bill t s") auto
  note eff = auto_refund_bill_effect[OF step]
  then have same: "auth_token s1 = auth_token s" "cookies s1 = cookies s" by auto
  have rf: "auto_refund_request_for e s1 = auto_refund_request_for e s"
    by (rule auto_refund_request_for_cong) (use same in auto)
  show ?case
  proof (cases r1)
    case (Inl x)
    with Cons.prems step have "s' = s1" by simp
    with eff show ?thesis
    proof (elim conjE disjE exE)
      fix q assume "calls s1 = calls s @ [q]" "auto_refund_request_for e s q bill"
      with \<open>s' = s1\<close> have "calls s' = calls s @ [q] \<and> subseq [bill] (bill # bills) \<and>
          list_all2 (auto_refund_request_for e s) [q] [bill]" by simp
      with \<open>s' = s1\<close> same show ?thesis by blast
    next
      assume "calls s1 = calls s"
      with \<open>s' = s1\<close> have "calls s' = calls s @ [] \<and> subseq [] (bill # bills) \<and>
          list_all2 (auto_refund_request_for e s) [] []" by simp
      with \<open>s' = s1\<close> same show ?thesis by blast
    qed
  next
    case (Inr t1)
    with Cons.prems step have rest: "auto_refund_loop e bills t1 s1 = (r, s')" by simp
    from Cons.IH[OF rest] same rf obtain rs bs where
      tok: "auth_token s' = auth_token s" "cookies s' = cookies s" and
      c: "calls s' = calls s1 @ rs" and sb: "subseq bs bills" and
      la: "list_all2 (auto_refund_request_for e s) rs bs"
      by auto
    from eff show ?thesis
    proof (elim conjE disjE exE)
      assume "calls s1 = calls s"
      with c sb la have "calls s' = calls s @ rs \<and> subseq bs (bill # bills) \<and>
          list_all2 (auto_refund_request_for e s) rs bs"
        by (simp add: list_emb_Cons)
      with tok show ?thesis by blast
    next
      fix q assume "calls s1 = calls s @ [q]" "auto_refund_request_for e s q bill"
      with c sb la have "calls s' = calls s @ (q # rs) \<and> subseq (bill # bs) (bill # bills) \<and>
          list_all2 (auto_refund_request_for e s) (q # rs) (bill # bs)"
        by simp
      with tok show ?thesis by blast
    qed
  qed
qed

lemma auto_refund_loop_append:
  "auto_refund_loop e (xs @ ys) t s =
     (case auto_refund_loop e xs t s of
        (Inl x, s1) \<Rightarrow> (Inl x, s1)
      | (Inr t1, s1) \<Rightarrow> auto_refund_loop e ys t1 s1)"
  by (induction xs arbitrary: t s) (auto split: prod.splits sum.splits)

lemma auto_refund_bill_tally:
  assumes "auto_refund_bill e bill t s = (Inr t', s')"
  shows "fst t' + snd t' = fst t + snd t + (if selected bill then 1 else 0)"
proof (cases bill)
  case (JObj kvs)
  show ?thesis
  proof (cases "selected bill")
    case False
    with JObj assms show ?thesis
      by (auto simp: auto_refund_bill_def selected_def)
  next
    case True
    obtain r1 s1 where rb:
      "auto_refund_refund_bill e (id_of kvs) (amount_of kvs)
         (log_msg INFO ''{}: ${}'' [id_of kvs, amount_of kvs] s) = (r1, s1)"
      using auto_refund_refund_bill_cases by blast
    show ?thesis
    proof (cases r1)
      case (Inl x)
      with JObj True rb assms show ?thesis
        by (auto simp: auto_refund_bill_def selected_def)
    next
      case (Inr b)
      with JObj True rb assms show ?thesis
        by (cases b) (auto simp: auto_refund_bill_def selected_def)
    qed
  qed
qed (use assms in \<open>auto simp: auto_refund_bill_def\<close>)

lemma auto_refund_loop_tally:
  assumes "auto_refund_loop e bills t s = (Inr t', s')"
  shows "fst t' + snd t' = fst t + snd t + length (filter selected bills)"
  using assms
proof (induction bills arbitrary: t s)
  case Nil
  then show ?case by simp
next
  case (Cons bill bills)
  obtain r1 s1 where step: "auto_refund_bill e bill t s = (r1, s1)"
    by (cases "auto_refund_bill e bill t s") auto
  with Cons.prems obtain t1 where r1: "r1 = Inr t1"
    and rest: "auto_refund_loop e bills t1 s1 = (Inr t', s')"
    by (cases r1) auto
  from step r1 have st: "auto_refund_bill e bill t s = (Inr t1, s1)" by simp
  from auto_refund_bill_tally[OF st] Cons.IH[OF rest] show ?case by simp
qed

lemma auto_refund_bill_count:
  assumes "auto_refund_bill e bill u s = (Inr u', s')"
  shows "length (calls s') = length (calls s) + (if selected bill then 1 else 0)"
proof (cases bill)
  case (JObj kvs)
  show ?thesis
  proof (cases "selected bill")
    case False
    with JObj assms show ?thesis
      by (auto simp: auto_refund_bill_def selected_def)
  next
    case True
    obtain r1 s1 where rb:
      "auto_refund_refund_bill e (id_of kvs) (amount_of kvs)
         (log_msg INFO ''{}: ${}'' [id_of kvs, amount_of kvs] s) = (r1, s1)"
      using auto_refund_refund_bill_cases by blast
    from JObj True rb assms obtain b where r1: "r1 = Inr b" and s': "s' = s1"
      by (cases r1) (auto simp: auto_refund_bill_def selected_def split: bool.splits)
    from auto_refund_refund_bill_effect[OF rb] r1 s' True show ?thesis
      by (auto split: sum.splits)
  qed
qed (use assms in \<open>auto simp: auto_refund_bill_def\<close>)

lemma auto_refund_loop_count:
  assumes "auto_refund_loop e bills u s = (Inr u', s')"
  shows "length (calls s') = length (calls s) + length (filter selected bills)"
  using assms
proof (induction bills arbitrary: u s)
  case Nil
  then show ?case by simp
next
  case (Cons bill bills)
  obtain r1 s1 where step: "auto_refund_bill e bill u s = (r1, s1)"
    by (cases "auto_refund_bill e bill u s") auto
  with Cons.prems obtain u1 where r1: "r1 = Inr u1"
    and rest: "auto_refund_loop e bills u1 s1 = (Inr u', s')"
    by (cases r1) auto
  from step r1 have st: "auto_refund_bill e bill u s = (Inr u1, s1)" by simp
  from auto_refund_bill_count[OF st] Cons.IH[OF rest] show ?case by simp
qed

section \<open>Single bills and positions in the list\<close>



lemma autoRefund_bill_invalid_id:
  assumes "\<not> valid_id (JObj kvs)"
  shows "autoRefund_bill e (JObj kvs) t s =
           (Inr t, log_msg WARNING ''Invalid bill_id: {}'' [id_of kvs] s)"
  using assms by (auto simp: autoRefund_bill_def valid_id_def)

lemma autoRefund_bill_zero_amount:
  assumes "valid_id (JObj kvs)" and "py_int (id_of kvs) = Inr i"
    and "zero_or_null_amount (JObj kvs)"
  shows "autoRefund_bill e (JObj kvs) t s =
           (Inr (t\<lparr>skipped := skipped t + 1\<rparr>),
            log_msg INFO ''{}: ${} (skipped)'' [JInt i, amount_of kvs] s)"
  using assms by (auto simp: autoRefund_bill_def valid_id_def zero_or_null_amount_def)

lemma autoRefund_bill_zero_amount_calls:
  assumes "zero_or_null_amount (JObj kvs)"
  shows "calls (snd (autoRefund_bill e (JObj kvs) t s)) = calls s"
proof (cases "valid_id (JObj kvs)")
  case False
  then show ?thesis by (simp add: autoRefund_bill_invalid_id)
next
  case True
  show ?thesis
  proof (cases "py_int (id_of kvs)")
    case (Inl x)
    with True show ?thesis by (auto simp: autoRefund_bill_def valid_id_def)
  next
    case (Inr i)
    with True assms show ?thesis by (simp add: autoRefund_bill_zero_amount)
  qed
qed

lemma auto_refund_bill_not_selected:
  assumes "\<not> selected (JObj kvs)"
  shows "auto_refund_bill e (JObj kvs) u s = (Inr u, s)"
  using assms by (auto simp: auto_refund_bill_def selected_def)

lemma autoRefund_loop_at:
  assumes "autoRefund_loop e bs1 t0 s0 = (Inr t, s)"
    and "autoRefund_bill e bill t s = (Inr t1, s1)"
  shows "autoRefund_loop e (bs1 @ bill # bs2) t0 s0 = autoRefund_loop e bs2 t1 s1"
  using assms by (simp add: autoRefund_loop_append)

lemma auto_refund_loop_at:
  assumes "auto_refund_loop e bs1 u0 s0 = (Inr u, s)"
    and "auto_refund_bill e bill u s = (Inr u1, s1)"
  shows "auto_refund_loop e (bs1 @ bill # bs2) u0 s0 = auto_refund_loop e bs2 u1 s1"
  using assms by (simp add: auto_refund_loop_append)

section \<open>The requests a loop adds\<close>

lemma new_calls_append [simp]: "calls s' = calls s @ rs \<Longrightarrow> new_calls s s' = rs"
  by (simp add: new_calls_def)

lemma list_all2_set1:
  assumes "list_all2 R xs ys" and "x \<in> set xs"
  shows "\<exists>y\<in>set ys. R x y"
  using assms by (induction rule: list_all2_induct) auto

lemma autoRefund_loop_new_calls:
  assumes "autoRefund_loop e bills t s = (r, s')" and "q \<in> set (new_calls s s')"
  shows "\<exists>b\<in>set bills. autoRefund_request_for e (auth_token s) q b"
proof -
  from autoRefund_loop_effect[OF assms(1)] obtain rs bs where
    c: "calls s' = calls s @ rs" and sb: "subseq bs bills" and
    la: "list_all2 (autoRefund_request_for e (auth_token s)) rs bs"
    by auto
  from c assms(2) have "q \<in> set rs" by simp
  with la obtain b where b: "b \<in> set bs" "autoRefund_request_for e (auth_token s) q b"
    by (blast dest: list_all2_set1)
  from sb b(1) have "b \<in> set bills"
    by (auto dest: list_emb_set)
  with b(2) show ?thesis by blast
qed

lemma auto_refund_loop_new_calls:
  assumes "auto_refund_loop e bills u s = (r, s')" and "q \<in> set (new_calls s s')"
  shows "\<exists>b\<in>set bills. auto_refund_request_for e s q b"
proof -
  from auto_refund_loop_effect[OF assms(1)] obtain rs bs where
    c: "calls s' = calls s @ rs" and sb: "subseq bs bills" and
    la: "list_all2 (auto_refund_request_for e s) rs bs"
    by auto
  from c assms(2) have "q \<in> set rs" by simp
  with la obtain b where b: "b \<in> set bs" "auto_refund_request_for e s q b"
    by (blast dest: list_all2_set1)
  from sb b(1) have "b \<in> set bills"
    by (auto dest: list_emb_set)
  with b(2) show ?thesis by blast
qed

lemma body_field_autoRefund [simp]:
  "body_field (autoRefund_refund_request e token i a) ''billId'' = JInt i"
  "body_field (autoRefund_refund_request e token i a) ''refundMoney'' = JInt a"
  by (simp_all add: body_field_def autoRefund_refund_request_def dict_get_def)

lemma body_field_auto_refund [simp]:
  "body_field (auto_refund_refund_request e s bid a) ''billId'' = bid"
  "body_field (auto_refund_refund_request e s bid a) ''refundMoney'' = JInt a"
  "body_field (auto_refund_refund_request e s bid a) ''note'' = JStr ''auto-refund''"
  by (simp_all add: body_field_def auto_refund_refund_request_def dict_get_def)

lemma trunc_toward_zero:
  "\<bar>of_int (trunc x)\<bar> \<le> \<bar>x\<bar> \<and> \<bar>x - of_int (trunc x)\<bar> < 1"
proof (cases "0 \<le> x")
  case True
  then have tr: "trunc x = \<lfloor>x\<rfloor>" by (simp add: trunc_def)
  have a: "of_int \<lfloor>x\<rfloor> \<le> x" and b: "x < of_int \<lfloor>x\<rfloor> + 1" by linarith+
  from True have "0 \<le> \<lfloor>x\<rfloor>" by simp
  then have c: "(0::rat) \<le> of_int \<lfloor>x\<rfloor>" by simp
  have "\<bar>of_int \<lfloor>x\<rfloor>\<bar> = (of_int \<lfloor>x\<rfloor> :: rat)" using c by (rule abs_of_nonneg)
  moreover have "\<bar>x\<bar> = x" using True by (rule abs_of_nonneg)
  moreover have "\<bar>x - of_int \<lfloor>x\<rfloor>\<bar> = x - of_int \<lfloor>x\<rfloor>"
    using a by (intro abs_of_nonneg) simp
  ultimately show ?thesis unfolding tr using a b by linarith
next
  case False
  then have tr: "trunc x = \<lceil>x\<rceil>" by (simp add: trunc_def)
  have a: "x \<le> of_int \<lceil>x\<rceil>" and b: "of_int \<lceil>x\<rceil> < x + 1" by linarith+
  from False have "\<lceil>x\<rceil> \<le> 0" by (simp add: ceiling_le_iff)
  then have c: "(of_int \<lceil>x\<rceil> :: rat) \<le> 0" by simp
  have "\<bar>of_int \<lceil>x\<rceil>\<bar> = - (of_int \<lceil>x\<rceil> :: rat)" using c by (rule abs_of_nonpos)
  moreover have "\<bar>x\<bar> = - x" using False by (intro abs_of_nonpos) simp
  moreover have "\<bar>x - of_int \<lceil>x\<rceil>\<bar> = - (x - of_int \<lceil>x\<rceil>)"
    using a by (intro abs_of_nonpos) simp
  ultimately show ?thesis unfolding tr using a b by linarith
qed

section \<open>The calls of a whole run\<close>

lemma autoRefund_login_calls:
  "calls (snd (autoRefund_login e s)) = calls s @ [autoRefund_login_request e]"
  by (simp add: autoRefund_login_def post_def split: http_result.splits option.splits json.splits)

lemma autoRefund_login_result:
  "calls s1 = calls s \<Longrightarrow> fst (autoRefund_login e s1) = fst (autoRefund_login e s)"
  by (simp add: autoRefund_login_def post_def split: http_result.splits option.splits json.splits)

lemma autoRefund_login_token:
  "autoRefund_login e s = (Some token, s1) \<Longrightarrow> auth_token s1 = JStr token \<and> token \<noteq> []"
  by (auto simp: autoRefund_login_def post_def
           split: http_result.splits option.splits json.splits if_splits)

lemma autoRefund_fetch_bills_calls:
  "calls (snd (autoRefund_fetch_bills e token s)) = calls s @ [autoRefund_fetch_request e token]"
  by (simp add: autoRefund_fetch_bills_def post_def
           split: http_result.splits option.splits json.splits)

lemma autoRefund_fetch_bills_token:
  "auth_token (snd (autoRefund_fetch_bills e token s)) = auth_token s"
  by (simp add: autoRefund_fetch_bills_def post_def
           split: http_result.splits option.splits json.splits)

lemma autoRefund_process_refunds_calls:
  assumes "autoRefund_process_refunds e bill_data s = (r, s')"
  shows "\<exists>rs. calls s' = calls s @ rs \<and>
              (\<forall>q\<in>set rs. \<exists>i a. q = autoRefund_refund_request e (auth_token s) i a)"
proof (cases bill_data)
  case (JObj kvs)
  let ?s0 = "log_msg INFO ''{} bills found'' [dict_get kvs ''totalCount'' (JInt 0)] s"
  show ?thesis
  proof (cases "py_eq_zero (dict_get kvs ''totalCount'' (JInt 0))")
    case True
    with JObj assms show ?thesis by (auto simp: autoRefund_process_refunds_def)
  next
    case False
    show ?thesis
    proof (cases "dict_get kvs ''data'' (JList [])")
      case (JList bills)
      obtain r1 s1 where lp:
        "autoRefund_loop e bills \<lparr>success = 0, failed = 0, skipped = 0\<rparr> ?s0 = (r1, s1)"
        by (cases "autoRefund_loop e bills \<lparr>success = 0, failed = 0, skipped = 0\<rparr> ?s0") auto
      from autoRefund_loop_effect[OF lp] obtain rs bs where
        c: "calls s1 = calls s @ rs" and
        la: "list_all2 (autoRefund_request_for e (auth_token s)) rs bs"
        by auto
      have "\<forall>q\<in>set rs. \<exists>i a. q = autoRefund_refund_request e (auth_token s) i a"
      proof
        fix q assume "q \<in> set rs"
        with la obtain b where "autoRefund_request_for e (auth_token s) q b"
          by (auto simp: in_set_conv_nth list_all2_conv_all_nth)
        then show "\<exists>i a. q = autoRefund_refund_request e (auth_token s) i a"
          by (blast dest: autoRefund_request_forD)
      qed
      moreover from JObj False JList lp assms have "calls s' = calls s1"
        by (cases r1) (auto simp: autoRefund_process_refunds_def)
      ultimately show ?thesis using c by auto
    qed (use JObj False assms in \<open>auto simp: autoRefund_process_refunds_def\<close>)
  qed
qed (use assms in \<open>auto simp: autoRefund_process_refunds_def\<close>)

lemma autoRefund_main_calls:
  "\<exists>rs. calls (snd (autoRefund_main e s)) = calls s @ autoRefund_login_request e # rs \<and>
        (rs = [] \<or>
         (\<exists>token rs'. rs = autoRefund_fetch_request e token # rs' \<and>
            (\<forall>q\<in>set rs'. \<exists>i a. q = autoRefund_refund_request e token i a)))"
proof -
  let ?s0 = "log_msg INFO ''Python AutoRefund v2.0'' [] s"
  obtain r1 s1 where lg: "autoRefund_login e ?s0 = (r1, s1)"
    by (cases "autoRefund_login e ?s0") auto
  have c1: "calls s1 = calls s @ [autoRefund_login_request e]"
    using autoRefund_login_calls[of e ?s0] lg by simp
  show ?thesis
  proof (cases "r1 = None \<or> r1 = Some []")
    case True
    with lg c1 show ?thesis by (auto simp: autoRefund_main_def)
  next
    case False
    then obtain token where tk: "r1 = Some token" "token \<noteq> []" by (cases r1) auto
    obtain r2 s2 where ft: "autoRefund_fetch_bills e (auth_token s1) s1 = (r2, s2)"
      by (cases "autoRefund_fetch_bills e (auth_token s1) s1") auto
    have c2: "calls s2 = calls s1 @ [autoRefund_fetch_request e (auth_token s1)]"
      using autoRefund_fetch_bills_calls[of e "auth_token s1" s1] ft by simp
    have t2: "auth_token s2 = auth_token s1"
      using autoRefund_fetch_bills_token[of e "auth_token s1" s1] ft by simp
    show ?thesis
    proof (cases "\<exists>d. r2 = Some d \<and> truthy d")
      case False
      with lg tk ft c1 c2 have
        "calls (snd (autoRefund_main e s)) =
           calls s @ autoRefund_login_request e # [autoRefund_fetch_request e (auth_token s1)]"
        by (cases r2) (auto simp: autoRefund_main_def)
      then show ?thesis by auto
    next
      case True
      then obtain d where d: "r2 = Some d" "truthy d" by auto
      obtain r3 s3 where pr: "autoRefund_process_refunds e d s2 = (r3, s3)"
        by (cases "autoRefund_process_refunds e d s2") auto
      from autoRefund_process_refunds_calls[OF pr] t2 obtain rs' where
        c3: "calls s3 = calls s2 @ rs'" and
        all: "\<forall>q\<in>set rs'. \<exists>i a. q = autoRefund_refund_request e (auth_token s1) i a"
        by auto
      from lg tk ft d pr have "calls (snd (autoRefund_main e s)) = calls s3"
        by (cases r3) (auto simp: autoRefund_main_def)
      with c1 c2 c3 have
        "calls (snd (autoRefund_main e s)) =
           calls s @ autoRefund_login_request e # autoRefund_fetch_request e (auth_token s1) # rs'"
        by simp
      with all show ?thesis by blast
    qed
  qed
qed

lemma auto_refund_login_calls:
  "calls (snd (auto_refund_login e s)) = calls s @ [auto_refund_login_request e s]"
proof (cases "server e (calls s) (auto_refund_login_request e s)")
  case RequestException
  then show ?thesis
    by (auto simp: auto_refund_login_def post_def)
next
  case (Response st body js ck)
  show ?thesis
  proof (cases "raises_for_status st \<or> js = None")
    case True
    with Response show ?thesis
      by (auto simp: auto_refund_login_def post_def)
  next
    case False
    then obtain d where js: "js = Some d" and st: "\<not> raises_for_status st" by auto
    show ?thesis
    proof (cases "contains_data d")
      case (Inl x)
      with Response js st show ?thesis
        by (auto simp: auto_refund_login_def post_def)
    next
      case (Inr b)
      show ?thesis
      proof (cases b)
        case False
        with Response js st Inr show ?thesis
          by (auto simp: auto_refund_login_def post_def)
      next
        case True
        show ?thesis
        proof (cases d)
          case (JObj kvs)
          show ?thesis
          proof (cases "truthy (dict_get kvs ''data'' JNull)")
            case f: False
            with Response js st Inr True JObj show ?thesis
              by (auto simp: auto_refund_login_def post_def)
          next
            case t: True
            with Response js st Inr True JObj show ?thesis
              by (cases "dict_get kvs ''data'' JNull")
                 (auto simp: auto_refund_login_def post_def)
          qed
        qed (use Response js st Inr True in
              \<open>auto simp: auto_refund_login_def post_def\<close>)
      qed
    qed
  qed
qed

lemma auto_refund_login_request_cong:
  "cookies s1 = cookies s \<Longrightarrow> auto_refund_login_request e s1 = auto_refund_login_request e s"
  by (simp add: auto_refund_login_request_def)

lemma auto_refund_login_result:
  assumes "calls s1 = calls s" and "cookies s1 = cookies s"
  shows "fst (auto_refund_login e s1) = fst (auto_refund_login e s)"
proof -
  have rq: "auto_refund_login_request e s1 = auto_refund_login_request e s"
    using assms(2) by (rule auto_refund_login_request_cong)
  show ?thesis
  proof (cases "server e (calls s) (auto_refund_login_request e s)")
    case RequestException
    with assms rq show ?thesis
      by (auto simp: auto_refund_login_def post_def)
  next
    case (Response st body js ck)
    show ?thesis
    proof (cases "raises_for_status st \<or> js = None")
      case True
      with Response assms rq show ?thesis
        by (auto simp: auto_refund_login_def post_def)
    next
      case False
      then obtain d where js: "js = Some d" and st: "\<not> raises_for_status st" by auto
      show ?thesis
      proof (cases "contains_data d")
        case (Inl x)
        with Response js st assms rq show ?thesis
          by (auto simp: auto_refund_login_def post_def)
      next
        case (Inr b)
        show ?thesis
        proof (cases b)
          case False
          with Response js st Inr assms rq show ?thesis
            by (auto simp: auto_refund_login_def post_def)
        next
          case True
          show ?thesis
          proof (cases d)
            case (JObj kvs)
            show ?thesis
            proof (cases "truthy (dict_get kvs ''data'' JNull)")
              case f: False
              with Response js st Inr True JObj assms rq show ?thesis
                by (auto simp: auto_refund_login_def post_def)
            next
              case t: True
              with Response js st Inr True JObj assms rq show ?thesis
                by (cases "dict_get kvs ''data'' JNull")
                   (auto simp: auto_refund_login_def post_def)
            qed
          qed (use Response js st Inr True assms rq in
                \<open>auto simp: auto_refund_login_def post_def\<close>)
        qed
      qed
    qed
  qed
qed

lemma auto_refund_fetch_request_cong:
  "auth_token s1 = auth_token s \<Longrightarrow> cookies s1 = cookies s \<Longrightarrow>
   auto_refund_fetch_request e s1 = auto_refund_fetch_request e s"
  by (simp add: auto_refund_fetch_request_def get_headers_def)

lemma auto_refund_fetch_bills_effect:
  "calls (snd (auto_refund_fetch_bills e s)) = calls s @ [auto_refund_fetch_request e s]"
  "auth_token (snd (auto_refund_fetch_bills e s)) = auth_token s"
  "cookies (snd (auto_refund_fetch_bills e s)) = cookies s"
  by (simp_all add: auto_refund_fetch_bills_def post_def
           split: http_result.splits option.splits)

lemma auto_refund_process_refunds_calls:
  assumes "auto_refund_process_refunds e bill_data s = (r, s')"
  shows "\<exists>rs. calls s' = calls s @ rs \<and>
              (\<forall>q\<in>set rs. \<exists>bid a. q = auto_refund_refund_request e s bid a)"
proof (cases bill_data)
  case (JObj kvs)
  let ?s0 = "log_msg INFO ''{} bills'' [dict_get kvs ''totalCount'' (JInt 0)] s"
  show ?thesis
  proof (cases "py_eq_zero (dict_get kvs ''totalCount'' (JInt 0))")
    case True
    with JObj assms show ?thesis by (auto simp: auto_refund_process_refunds_def)
  next
    case False
    show ?thesis
    proof (cases "py_iter (dict_get kvs ''data'' (JList []))")
      case (Inl x)
      with JObj False assms show ?thesis by (auto simp: auto_refund_process_refunds_def)
    next
      case (Inr bills)
      obtain r1 s1 where lp: "auto_refund_loop e bills (0, 0) ?s0 = (r1, s1)"
        by (cases "auto_refund_loop e bills (0, 0) ?s0") auto
      have rf: "auto_refund_request_for e ?s0 = auto_refund_request_for e s"
        by (rule auto_refund_request_for_cong) simp_all
      from auto_refund_loop_effect[OF lp] rf obtain rs bs where
        c: "calls s1 = calls s @ rs" and
        la: "list_all2 (auto_refund_request_for e s) rs bs"
        by auto
      have "\<forall>q\<in>set rs. \<exists>bid a. q = auto_refund_refund_request e s bid a"
      proof
        fix q assume "q \<in> set rs"
        with la obtain b where "auto_refund_request_for e s q b"
          by (auto simp: in_set_conv_nth list_all2_conv_all_nth)
        then show "\<exists>bid a. q = auto_refund_refund_request e s bid a"
          by (blast dest: auto_refund_request_forD)
      qed
      moreover from JObj False Inr lp assms have "calls s' = calls s1"
        by (cases r1) (auto simp: auto_refund_process_refunds_def)
      ultimately show ?thesis using c by auto
    qed
  qed
qed (use assms in \<open>auto simp: auto_refund_process_refunds_def\<close>)

lemma auto_refund_main_calls:
  "\<exists>rs. calls (snd (auto_refund_main e s)) = calls s @ auto_refund_login_request e s # rs \<and>
        (rs = [] \<or>
         (\<exists>st rs'. rs = auto_refund_fetch_request e st # rs' \<and>
            (\<forall>q\<in>set rs'. \<exists>bid a. q = auto_refund_refund_request e st bid a)))"
proof -
  let ?s0 = "log_msg INFO ''Auto-refund {}'' [JStr (strftime_Y_m_d (today e))] s"
  obtain r1 s1 where lg: "auto_refund_login e ?s0 = (r1, s1)"
    by (cases "auto_refund_login e ?s0") auto
  have "auto_refund_login_request e ?s0 = auto_refund_login_request e s"
    by (rule auto_refund_login_request_cong) simp
  then have c1: "calls s1 = calls s @ [auto_refund_login_request e s]"
    using auto_refund_login_calls[of e ?s0] lg by simp
  show ?thesis
  proof (cases r1)
    case False
    with lg c1 show ?thesis by (auto simp: auto_refund_main_def)
  next
    case True
    obtain r2 s2 where ft: "auto_refund_fetch_bills e s1 = (r2, s2)"
      by (cases "auto_refund_fetch_bills e s1") auto
    have c2: "calls s2 = calls s1 @ [auto_refund_fetch_request e s1]"
      and t2: "auth_token s2 = auth_token s1" "cookies s2 = cookies s1"
      using auto_refund_fetch_bills_effect[of e s1] ft by simp_all
    show ?thesis
    proof (cases "\<exists>d. r2 = Some d \<and> truthy d")
      case False
      with lg True ft c1 c2 have
        "calls (snd (auto_refund_main e s)) =
           calls s @ auto_refund_login_request e s # [auto_refund_fetch_request e s1]"
        by (cases r2) (auto simp: auto_refund_main_def)
      then show ?thesis by auto
    next
      case d: True
      then obtain d where d: "r2 = Some d" "truthy d" by auto
      obtain r3 s3 where pr: "auto_refund_process_refunds e d s2 = (r3, s3)"
        by (cases "auto_refund_process_refunds e d s2") auto
      have rq: "\<And>bid a. auto_refund_refund_request e s2 bid a =
                         auto_refund_refund_request e s1 bid a"
        using t2 by (rule auto_refund_refund_request_cong)
      from auto_refund_process_refunds_calls[OF pr] obtain rs' where
        c3: "calls s3 = calls s2 @ rs'" and
        all: "\<forall>q\<in>set rs'. \<exists>bid a. q = auto_refund_refund_request e s1 bid a"
        unfolding rq by auto
      from lg True ft d pr have "calls (snd (auto_refund_main e s)) = calls s3"
        by (cases r3) (auto simp: auto_refund_main_def)
      with c1 c2 c3 have
        "calls (snd (auto_refund_main e s)) =
           calls s @ auto_refund_login_request e s # auto_refund_fetch_request e s1 # rs'"
        by simp
      with all show ?thesis by blast
    qed
  qed
qed

section \<open>Concrete runs, evaluated\<close>

lemma demo_config_ok:
  "autoRefund_missing demo_cfg = []" "auto_refund_config_ok demo_cfg"
  by (simp_all add: autoRefund_missing_def auto_refund_config_ok_def demo_cfg_def jopt_def)

lemma demo_note: "''python-refund-'' @ str_of_int 501 @ ''-'' @ strftime_Ymd (today demo_env) =
  ''python-refund-501-20260301''"
  by (simp add: str_of_int_def digit_char_def strftime_Ymd_def pad_def demo_env_def demo_date_def)

lemma trunc_demo: "trunc (25 / 2) = 12" "trunc (- (25 / 2)) = - 12"
  by (simp_all add: trunc_def floor_eq_iff ceiling_eq_iff)

lemma demo_autoRefund_loop:
  "autoRefund_loop demo_env demo_bills \<lparr>success = 0, failed = 0, skipped = 0\<rparr> logged_in =
     (Inr \<lparr>success = 1, failed = 0, skipped = 1\<rparr>,
      logged_in
        \<lparr>calls := [autoRefund_refund_request demo_env (JStr ''tok_abc123'') 501 100],
         logged :=
           [Log INFO ''Processing {}: ${}'' [JInt 501, JInt 100],
            Log SUCCESS ''    {} [{}] {}'' [JInt 501, JInt 200, JStr ''ok''],
            Log INFO ''{}: ${} (skipped)'' [JInt 502, JInt 0]]\<rparr>)"
  by (simp add: demo_bills_def dict_get_def
        autoRefund_bill_def autoRefund_refund_bill_def post_def log_msg_def logged_in_def
        demo_env_def demo_server_def autoRefund_refund_request_def demo_cfg_def fstr_def)

lemma demo_auto_refund_loop:
  "auto_refund_loop demo_env demo_bills (0, 0) logged_in =
     (Inr (2, 0),
      logged_in
        \<lparr>calls := [auto_refund_refund_request demo_env logged_in (JInt 501) 100,
                   auto_refund_refund_request demo_env logged_in (JInt 502) 0],
         logged :=
           [Log INFO ''{}: ${}'' [JInt 501, JInt 100],
            Log INFO ''    Refunded: {}'' [JInt 501],
            Log INFO ''{}: ${}'' [JInt 502, JInt 0],
            Log INFO ''    Refunded: {}'' [JInt 502]]\<rparr>)"
  by (simp add: demo_bills_def dict_get_def
        auto_refund_bill_def auto_refund_refund_bill_def post_def log_msg_def logged_in_def
        demo_env_def demo_server_def raises_for_status_def
        auto_refund_refund_request_def get_headers_def demo_cfg_def fstr_def)

lemma demo_float_autoRefund_loop:
  "calls (snd (autoRefund_loop demo_env float_bills
                 \<lparr>success = 0, failed = 0, skipped = 0\<rparr> logged_in)) =
     [autoRefund_refund_request demo_env (JStr ''tok_abc123'') 7 12,
      autoRefund_refund_request demo_env (JStr ''tok_abc123'') 8 (- 12)]"
  by (simp add: float_bills_def dict_get_def autoRefund_bill_def autoRefund_refund_bill_def
        post_def log_msg_def logged_in_def demo_env_def demo_server_def trunc_demo)

lemma demo_float_auto_refund_loop:
  "calls (snd (auto_refund_loop demo_env float_bills (0, 0) logged_in)) =
     [auto_refund_refund_request demo_env logged_in (JInt 7) 12,
      auto_refund_refund_request demo_env logged_in (JInt 8) (- 12)]"
  by (simp add: float_bills_def dict_get_def auto_refund_bill_def auto_refund_refund_bill_def
        post_def log_msg_def logged_in_def demo_env_def demo_server_def trunc_demo
        raises_for_status_def auto_refund_refund_request_def get_headers_def)

lemma demo_autoRefund_process_refunds:
  "autoRefund_process_refunds demo_env demo_page logged_in =
     (Inr (),
      logged_in
        \<lparr>calls := [autoRefund_refund_request demo_env (JStr ''tok_abc123'') 501 100],
         logged :=
           [Log INFO ''{} bills found'' [JInt 2],
            Log INFO ''Processing {}: ${}'' [JInt 501, JInt 100],
            Log SUCCESS ''    {} [{}] {}'' [JInt 501, JInt 200, JStr ''ok''],
            Log INFO ''{}: ${} (skipped)'' [JInt 502, JInt 0],
            summary \<lparr>success = 1, failed = 0, skipped = 1\<rparr>]\<rparr>)"
  by (simp add: autoRefund_process_refunds_def demo_page_def demo_bills_def dict_get_def
        autoRefund_bill_def autoRefund_refund_bill_def post_def log_msg_def logged_in_def
        demo_env_def demo_server_def autoRefund_refund_request_def demo_cfg_def fstr_def)

lemma demo_auto_refund_process_refunds:
  "auto_refund_process_refunds demo_env demo_page logged_in =
     (Inr (),
      logged_in
        \<lparr>calls := [auto_refund_refund_request demo_env logged_in (JInt 501) 100,
                   auto_refund_refund_request demo_env logged_in (JInt 502) 0],
         logged :=
           [Log INFO ''{} bills'' [JInt 2],
            Log INFO ''{}: ${}'' [JInt 501, JInt 100],
            Log INFO ''    Refunded: {}'' [JInt 501],
            Log INFO ''{}: ${}'' [JInt 502, JInt 0],
            Log INFO ''    Refunded: {}'' [JInt 502],
            Log INFO ''Success: {}, Failed: {}'' [JInt 2, JInt 0]]\<rparr>)"
  by (simp add: auto_refund_process_refunds_def demo_page_def demo_bills_def dict_get_def
        auto_refund_bill_def auto_refund_refund_bill_def post_def log_msg_def logged_in_def
        demo_env_def demo_server_def raises_for_status_def
        auto_refund_refund_request_def get_headers_def demo_cfg_def fstr_def)

lemma demo_autoRefund_script:
  "calls (snd (autoRefund_script demo_env)) =
     [autoRefund_login_request demo_env,
      autoRefund_fetch_request demo_env (JStr ''tok_abc123''),
      autoRefund_refund_request demo_env (JStr ''tok_abc123'') 501 100]"
  by (simp add: autoRefund_script_def autoRefund_missing_def autoRefund_main_def
        autoRefund_login_def autoRefund_fetch_bills_def autoRefund_process_refunds_def
        autoRefund_bill_def autoRefund_refund_bill_def post_def log_msg_def
        autoRefund_init_def demo_env_def demo_cfg_def demo_server_def demo_page_def
        demo_bills_def dict_get_def fstr_def raises_for_status_def
        autoRefund_login_request_def autoRefund_fetch_request_def
        autoRefund_refund_request_def)

lemma demo_auto_refund_script:
  "map timeout (calls (snd (auto_refund_script demo_env))) = [None, None, None, None]"
  by (simp add: auto_refund_script_def auto_refund_config_ok_def auto_refund_main_def
        auto_refund_login_def auto_refund_fetch_bills_def auto_refund_process_refunds_def
        auto_refund_bill_def auto_refund_refund_bill_def post_def log_msg_def
        auto_refund_init_def demo_env_def demo_cfg_def demo_server_def demo_page_def
        demo_bills_def dict_get_def fstr_def jopt_def raises_for_status_def
        auto_refund_login_request_def auto_refund_fetch_request_def
        auto_refund_refund_request_def dict_update_def)

lemma down_autoRefund_login: "fst (autoRefund_login down_env autoRefund_init) = None"
  by (simp add: autoRefund_login_def post_def down_env_def)

lemma down_auto_refund_login:
  "\<not> fst (auto_refund_login down_env (auto_refund_init down_env))"
  by (simp add: auto_refund_login_def post_def down_env_def)

section \<open>The properties\<close>

text \<open>
  C1, as amended. For a bill record (a dict) whose \<^verbatim>\<open>actualMoney\<close> is 0 or \<^verbatim>\<open>None\<close>
  (null or missing): the loop body of \<^verbatim>\<open>autoRefund.py\<close> makes no call for it; when its
  id passes the id test and \<^verbatim>\<open>int\<close> accepts it, the bill at any position of the list
  costs one log line and one more in \<^verbatim>\<open>skipped\<close>, and the loop goes on with the rest;
  when its id fails the id test, the bill costs one warning in the log, every count
  stays as it was, and the loop goes on with the rest. In \<^verbatim>\<open>auto_refund.py\<close>, which has no
  skipped count, a bill whose amount is \<^verbatim>\<open>None\<close> changes nothing at all.
\<close>

theorem zero_amount_bill_not_refunded:
  assumes "py_eq_zero (amount_of kvs) \<or> amount_of kvs = JNull"
  shows "calls (snd (autoRefund_bill e (JObj kvs) t s)) = calls s \<and>
         (autoRefund_loop e bs1 t0 s0 = (Inr t, s) \<and> valid_id (JObj kvs) \<and>
          py_int (id_of kvs) = Inr i \<longrightarrow>
            autoRefund_loop e (bs1 @ JObj kvs # bs2) t0 s0 =
            autoRefund_loop e bs2 (t\<lparr>skipped := skipped t + 1\<rparr>)
              (log_msg INFO ''{}: ${} (skipped)'' [JInt i, amount_of kvs] s)) \<and>
         (autoRefund_loop e bs1 t0 s0 = (Inr t, s) \<and> \<not> valid_id (JObj kvs) \<longrightarrow>
            autoRefund_bill e (JObj kvs) t s =
              (Inr t, log_msg WARNING ''Invalid bill_id: {}'' [id_of kvs] s) \<and>
            autoRefund_loop e (bs1 @ JObj kvs # bs2) t0 s0 =
            autoRefund_loop e bs2 t
              (log_msg WARNING ''Invalid bill_id: {}'' [id_of kvs] s)) \<and>
         (auto_refund_loop e bs1 u0 s0 = (Inr u, s) \<and> amount_of kvs = JNull \<longrightarrow>
            auto_refund_loop e (bs1 @ JObj kvs # bs2) u0 s0 = auto_refund_loop e bs2 u s)"
proof -
  from assms have z: "zero_or_null_amount (JObj kvs)"
    by (simp add: zero_or_null_amount_def)
  have "calls (snd (autoRefund_bill e (JObj kvs) t s)) = calls s"
    using z by (rule autoRefund_bill_zero_amount_calls)
  moreover have "autoRefund_loop e (bs1 @ JObj kvs # bs2) t0 s0 =
            autoRefund_loop e bs2 (t\<lparr>skipped := skipped t + 1\<rparr>)
              (log_msg INFO ''{}: ${} (skipped)'' [JInt i, amount_of kvs] s)"
    if "autoRefund_loop e bs1 t0 s0 = (Inr t, s)" "valid_id (JObj kvs)"
       "py_int (id_of kvs) = Inr i"
    using that(1) autoRefund_bill_zero_amount[OF that(2) that(3) z]
    by (rule autoRefund_loop_at)
  moreover have "autoRefund_bill e (JObj kvs) t s =
              (Inr t, log_msg WARNING ''Invalid bill_id: {}'' [id_of kvs] s) \<and>
            autoRefund_loop e (bs1 @ JObj kvs # bs2) t0 s0 =
            autoRefund_loop e bs2 t
              (log_msg WARNING ''Invalid bill_id: {}'' [id_of kvs] s)"
    if "autoRefund_loop e bs1 t0 s0 = (Inr t, s)" "\<not> valid_id (JObj kvs)"
  proof -
    from that(2) have st: "autoRefund_bill e (JObj kvs) t s =
              (Inr t, log_msg WARNING ''Invalid bill_id: {}'' [id_of kvs] s)"
      by (rule autoRefund_bill_invalid_id)
    from that(1) st have "autoRefund_loop e (bs1 @ JObj kvs # bs2) t0 s0 =
            autoRefund_loop e bs2 t
              (log_msg WARNING ''Invalid bill_id: {}'' [id_of kvs] s)"
      by (rule autoRefund_loop_at)
    with st show ?thesis by blast
  qed
  moreover have "auto_refund_loop e (bs1 @ JObj kvs # bs2) u0 s0 = auto_refund_loop e bs2 u s"
    if "auto_refund_loop e bs1 u0 s0 = (Inr u, s)" "amount_of kvs = JNull"
  proof -
    from that(2) have "\<not> selected (JObj kvs)" by (simp add: selected_def)
    then have "auto_refund_bill e (JObj kvs) u s = (Inr u, s)"
      by (rule auto_refund_bill_not_selected)
    with that(1) show ?thesis by (rule auto_refund_loop_at)
  qed
  ultimately show ?thesis by blast
qed

theorem zero_amount_bill_not_refunded_witness:
  "py_eq_zero (amount_of [(''id'', JInt 502), (''actualMoney'', JInt 0)]) \<and>
   valid_id (JObj [(''id'', JInt 502), (''actualMoney'', JInt 0)]) \<and>
   calls (snd (autoRefund_bill demo_env (JObj [(''id'', JInt 502), (''actualMoney'', JInt 0)])
                 \<lparr>success = 0, failed = 0, skipped = 0\<rparr> logged_in)) = [] \<and>
   autoRefund_loop demo_env [JObj [(''id'', JInt 502), (''actualMoney'', JInt 0)]]
       \<lparr>success = 0, failed = 0, skipped = 0\<rparr> logged_in =
     (Inr \<lparr>success = 0, failed = 0, skipped = 1\<rparr>,
      log_msg INFO ''{}: ${} (skipped)'' [JInt 502, JInt 0] logged_in) \<and>
   py_eq_zero (amount_of [(''actualMoney'', JInt 0)]) \<and>
   \<not> valid_id (JObj [(''actualMoney'', JInt 0)]) \<and>
   autoRefund_loop demo_env [JObj [(''actualMoney'', JInt 0)]]
       \<lparr>success = 0, failed = 0, skipped = 0\<rparr> logged_in =
     (Inr \<lparr>success = 0, failed = 0, skipped = 0\<rparr>,
      log_msg WARNING ''Invalid bill_id: {}'' [JNull] logged_in) \<and>
   amount_of [(''id'', JInt 502)] = JNull \<and>
   auto_refund_loop demo_env [JObj [(''id'', JInt 502)]] (0, 0) logged_in =
     (Inr (0, 0), logged_in)"
  using zero_amount_bill_not_refunded
          [of "[(''id'', JInt 502), (''actualMoney'', JInt 0)]" demo_env
              "\<lparr>success = 0, failed = 0, skipped = 0\<rparr>" logged_in "[]"
              "\<lparr>success = 0, failed = 0, skipped = 0\<rparr>" logged_in 502 "[]" "(0, 0)" "(0, 0)"]
        zero_amount_bill_not_refunded
          [of "[(''actualMoney'', JInt 0)]" demo_env
              "\<lparr>success = 0, failed = 0, skipped = 0\<rparr>" logged_in "[]"
              "\<lparr>success = 0, failed = 0, skipped = 0\<rparr>" logged_in 502 "[]" "(0, 0)" "(0, 0)"]
        zero_amount_bill_not_refunded
          [of "[(''id'', JInt 502)]" demo_env
              "\<lparr>success = 0, failed = 0, skipped = 0\<rparr>" logged_in "[]"
              "\<lparr>success = 0, failed = 0, skipped = 0\<rparr>" logged_in 502 "[]" "(0, 0)" "(0, 0)"]
  by (simp add: dict_get_def valid_id_def logged_in_def)

theorem zero_amount_bill_counterexample:
  "zero_or_null_amount (JObj [(''actualMoney'', JInt 0)]) \<and>
   fst (autoRefund_process_refunds demo_env
          (JObj [(''totalCount'', JInt 1), (''data'', JList [JObj [(''actualMoney'', JInt 0)]])])
          logged_in) = Inr () \<and>
   logged (snd (autoRefund_process_refunds demo_env
          (JObj [(''totalCount'', JInt 1), (''data'', JList [JObj [(''actualMoney'', JInt 0)]])])
          logged_in)) =
     [Log INFO ''{} bills found'' [JInt 1],
      Log WARNING ''Invalid bill_id: {}'' [JNull],
      summary \<lparr>success = 0, failed = 0, skipped = 0\<rparr>] \<and>
   zero_or_null_amount (JObj [(''id'', JInt 502), (''actualMoney'', JInt 0)]) \<and>
   calls (snd (auto_refund_loop demo_env [JObj [(''id'', JInt 502), (''actualMoney'', JInt 0)]]
                 (0, 0) logged_in)) =
     [auto_refund_refund_request demo_env logged_in (JInt 502) 0]"
  by (simp add: zero_or_null_amount_def dict_get_def autoRefund_process_refunds_def
        autoRefund_bill_def logged_in_def auto_refund_bill_def auto_refund_refund_bill_def
        post_def log_msg_def auto_refund_refund_request_def get_headers_def
        demo_env_def demo_server_def raises_for_status_def demo_cfg_def fstr_def)

text \<open>
  C2, as amended. When the login fails (\<^verbatim>\<open>login\<close> returns \<^verbatim>\<open>None\<close>, respectively \<^verbatim>\<open>False\<close>),
  the login request is the only call of the run: no fetch call and no refund call is
  made, and the last log line is the error \<^verbatim>\<open>Login failed\<close>. \<^verbatim>\<open>autoRefund.py\<close> then leaves
  with \<^verbatim>\<open>sys.exit(1)\<close>; \<^verbatim>\<open>auto_refund.py\<close> returns from \<^verbatim>\<open>main\<close> and the process ends with
  exit status 0.
\<close>

theorem failed_login_stops_run:
  "(fst (autoRefund_login e s) = None \<longrightarrow>
      fst (autoRefund_main e s) = Inl (SystemExit 1) \<and>
      exit_status (fst (autoRefund_main e s)) = 1 \<and>
      new_calls s (snd (autoRefund_main e s)) = [autoRefund_login_request e] \<and>
      last (logged (snd (autoRefund_main e s))) = Log ERROR ''Login failed'' []) \<and>
   (\<not> fst (auto_refund_login e s) \<longrightarrow>
      fst (auto_refund_main e s) = Inr () \<and>
      exit_status (fst (auto_refund_main e s)) = 0 \<and>
      new_calls s (snd (auto_refund_main e s)) = [auto_refund_login_request e s] \<and>
      last (logged (snd (auto_refund_main e s))) = Log ERROR ''Login failed'' [])"
proof (intro conjI impI)
  assume h: "fst (autoRefund_login e s) = None"
  let ?s0 = "log_msg INFO ''Python AutoRefund v2.0'' [] s"
  obtain r1 s1 where lg: "autoRefund_login e ?s0 = (r1, s1)"
    by (cases "autoRefund_login e ?s0") auto
  have "fst (autoRefund_login e ?s0) = fst (autoRefund_login e s)"
    by (rule autoRefund_login_result) simp
  with h lg have r1: "r1 = None" by simp
  have c1: "calls s1 = calls s @ [autoRefund_login_request e]"
    using autoRefund_login_calls[of e ?s0] lg by simp
  from lg r1 have m: "autoRefund_main e s = (Inl (SystemExit 1), log_msg ERROR ''Login failed'' [] s1)"
    by (simp add: autoRefund_main_def)
  from m show "fst (autoRefund_main e s) = Inl (SystemExit 1)" by simp
  from m show "exit_status (fst (autoRefund_main e s)) = 1" by simp
  from m c1 show "new_calls s (snd (autoRefund_main e s)) = [autoRefund_login_request e]"
    by simp
  from m show "last (logged (snd (autoRefund_main e s))) = Log ERROR ''Login failed'' []"
    by simp
next
  assume h: "\<not> fst (auto_refund_login e s)"
  let ?s0 = "log_msg INFO ''Auto-refund {}'' [JStr (strftime_Y_m_d (today e))] s"
  obtain r1 s1 where lg: "auto_refund_login e ?s0 = (r1, s1)"
    by (cases "auto_refund_login e ?s0") auto
  have "fst (auto_refund_login e ?s0) = fst (auto_refund_login e s)"
    by (rule auto_refund_login_result) simp_all
  with h lg have r1: "\<not> r1" by simp
  have "auto_refund_login_request e ?s0 = auto_refund_login_request e s"
    by (rule auto_refund_login_request_cong) simp
  then have c1: "calls s1 = calls s @ [auto_refund_login_request e s]"
    using auto_refund_login_calls[of e ?s0] lg by simp
  from lg r1 have m: "auto_refund_main e s = (Inr (), log_msg ERROR ''Login failed'' [] s1)"
    by (simp add: auto_refund_main_def)
  from m show "fst (auto_refund_main e s) = Inr ()" by simp
  from m show "exit_status (fst (auto_refund_main e s)) = 0" by simp
  from m c1 show "new_calls s (snd (auto_refund_main e s)) = [auto_refund_login_request e s]"
    by simp
  from m show "last (logged (snd (auto_refund_main e s))) = Log ERROR ''Login failed'' []"
    by simp
qed

theorem failed_login_stops_run_witness:
  "fst (autoRefund_login down_env autoRefund_init) = None \<and>
   exit_status (fst (autoRefund_script down_env)) = 1 \<and>
   calls (snd (autoRefund_script down_env)) = [autoRefund_login_request down_env] \<and>
   \<not> fst (auto_refund_login down_env (auto_refund_init down_env)) \<and>
   fst (auto_refund_script down_env) = Inr () \<and>
   calls (snd (auto_refund_script down_env)) =
     [auto_refund_login_request down_env (auto_refund_init down_env)] \<and>
   last (logged (snd (auto_refund_script down_env))) = Log ERROR ''Login failed'' []"
proof -
  have cfg: "cfg down_env = demo_cfg" by (simp add: down_env_def)
  have A: "autoRefund_script down_env = autoRefund_main down_env autoRefund_init"
    by (simp add: autoRefund_script_def cfg demo_config_ok)
  have B: "auto_refund_script down_env = auto_refund_main down_env (auto_refund_init down_env)"
    by (simp add: auto_refund_script_def cfg demo_config_ok)
  have n1: "new_calls autoRefund_init s' = calls s'" for s'
    by (simp add: new_calls_def autoRefund_init_def)
  have n2: "new_calls (auto_refund_init down_env) s' = calls s'" for s'
    by (simp add: new_calls_def auto_refund_init_def)
  from failed_login_stops_run[of down_env autoRefund_init] down_autoRefund_login
  have a: "exit_status (fst (autoRefund_main down_env autoRefund_init)) = 1"
    "calls (snd (autoRefund_main down_env autoRefund_init)) = [autoRefund_login_request down_env]"
    by (simp_all add: n1)
  from failed_login_stops_run[of down_env "auto_refund_init down_env"] down_auto_refund_login
  have b: "fst (auto_refund_main down_env (auto_refund_init down_env)) = Inr ()"
    "calls (snd (auto_refund_main down_env (auto_refund_init down_env))) =
       [auto_refund_login_request down_env (auto_refund_init down_env)]"
    "last (logged (snd (auto_refund_main down_env (auto_refund_init down_env)))) =
       Log ERROR ''Login failed'' []"
    by (simp_all add: n2)
  from a b down_autoRefund_login down_auto_refund_login show ?thesis
    unfolding A B by simp
qed

theorem failed_login_stops_run_counterexample:
  "\<not> fst (auto_refund_login down_env (auto_refund_init down_env)) \<and>
   fst (auto_refund_script down_env) = Inr () \<and>
   exit_status (fst (auto_refund_script down_env)) = 0"
  by (simp add: auto_refund_script_def auto_refund_main_def auto_refund_login_def post_def
        down_env_def demo_config_ok)

text \<open>
  C3, as amended. When \<^verbatim>\<open>process_refunds\<close> of \<^verbatim>\<open>autoRefund.py\<close> runs its loop over the
  list \<open>bills\<close> and returns, the last log line is the summary, and its counts add up to
  the number of bills whose id passed the id test, which is at most the length of the
  list; \<^verbatim>\<open>skipped\<close> is the number of those bills whose amount is 0 or \<^verbatim>\<open>None\<close>, which is at
  most the number of all bills with such an amount. With every id valid, both bounds are
  equalities. \<^verbatim>\<open>auto_refund.py\<close> logs two counts, success and failed, which add up to the
  number of refund calls that the loop made, at most the length of the list.
\<close>

theorem logged_counts:
  "(autoRefund_process_refunds e (JObj kvs) s = (Inr (), s') \<and>
    \<not> py_eq_zero (dict_get kvs ''totalCount'' (JInt 0)) \<and>
    dict_get kvs ''data'' (JList []) = JList bills \<longrightarrow>
      (\<exists>t. last (logged s') = summary t \<and>
           success t + failed t + skipped t = length (filter valid_id bills) \<and>
           skipped t = length (filter (\<lambda>b. valid_id b \<and> zero_or_null_amount b) bills) \<and>
           success t + failed t + skipped t \<le> length bills \<and>
           skipped t \<le> length (filter zero_or_null_amount bills) \<and>
           (list_all valid_id bills \<longrightarrow>
              success t + failed t + skipped t = length bills \<and>
              skipped t = length (filter zero_or_null_amount bills)))) \<and>
   (auto_refund_process_refunds e (JObj kvs) s = (Inr (), s'') \<and>
    \<not> py_eq_zero (dict_get kvs ''totalCount'' (JInt 0)) \<and>
    py_iter (dict_get kvs ''data'' (JList [])) = Inr items \<longrightarrow>
      (\<exists>a b. last (logged s'') =
                Log INFO ''Success: {}, Failed: {}'' [JInt (int a), JInt (int b)] \<and>
             a + b = length (new_calls s s'') \<and> a + b \<le> length items))"
proof (intro conjI impI)
  assume h: "autoRefund_process_refunds e (JObj kvs) s = (Inr (), s') \<and>
    \<not> py_eq_zero (dict_get kvs ''totalCount'' (JInt 0)) \<and>
    dict_get kvs ''data'' (JList []) = JList bills"
  let ?s0 = "log_msg INFO ''{} bills found'' [dict_get kvs ''totalCount'' (JInt 0)] s"
  obtain r1 s1 where lp:
    "autoRefund_loop e bills \<lparr>success = 0, failed = 0, skipped = 0\<rparr> ?s0 = (r1, s1)"
    by (cases "autoRefund_loop e bills \<lparr>success = 0, failed = 0, skipped = 0\<rparr> ?s0") auto
  with h obtain t where r1: "r1 = Inr t" and s': "s' = s1\<lparr>logged := logged s1 @ [summary t]\<rparr>"
    by (cases r1) (auto simp: autoRefund_process_refunds_def)
  from lp r1 have "autoRefund_loop e bills \<lparr>success = 0, failed = 0, skipped = 0\<rparr> ?s0 = (Inr t, s1)"
    by simp
  from autoRefund_loop_tally[OF this]
  have sum: "success t + failed t + skipped t = length (filter valid_id bills)"
    and sk: "skipped t = length (filter (\<lambda>b. valid_id b \<and> zero_or_null_amount b) bills)"
    by simp_all
  have le1: "length (filter valid_id bills) \<le> length bills" by simp
  have ff: "filter (\<lambda>b. valid_id b \<and> zero_or_null_amount b) bills =
        filter valid_id (filter zero_or_null_amount bills)"
    by (induction bills) auto
  have le2: "length (filter (\<lambda>b. valid_id b \<and> zero_or_null_amount b) bills) \<le>
        length (filter zero_or_null_amount bills)"
    unfolding ff by (rule length_filter_le)
  have eq: "length (filter valid_id bills) = length bills \<and>
            length (filter (\<lambda>b. valid_id b \<and> zero_or_null_amount b) bills) =
            length (filter zero_or_null_amount bills)" if "list_all valid_id bills"
  proof -
    from that have "filter valid_id bills = bills" by (simp add: list_all_iff)
    moreover from that have "filter (\<lambda>b. valid_id b \<and> zero_or_null_amount b) bills =
      filter zero_or_null_amount bills"
      by (auto simp: list_all_iff intro: filter_cong)
    ultimately show ?thesis by simp
  qed
  from s' have lst: "last (logged s') = summary t" by simp
  have "last (logged s') = summary t \<and>
           success t + failed t + skipped t = length (filter valid_id bills) \<and>
           skipped t = length (filter (\<lambda>b. valid_id b \<and> zero_or_null_amount b) bills) \<and>
           success t + failed t + skipped t \<le> length bills \<and>
           skipped t \<le> length (filter zero_or_null_amount bills) \<and>
           (list_all valid_id bills \<longrightarrow>
              success t + failed t + skipped t = length bills \<and>
              skipped t = length (filter zero_or_null_amount bills))"
    using lst sum sk le1 le2 eq by auto
  then
  show "\<exists>t. last (logged s') = summary t \<and>
           success t + failed t + skipped t = length (filter valid_id bills) \<and>
           skipped t = length (filter (\<lambda>b. valid_id b \<and> zero_or_null_amount b) bills) \<and>
           success t + failed t + skipped t \<le> length bills \<and>
           skipped t \<le> length (filter zero_or_null_amount bills) \<and>
           (list_all valid_id bills \<longrightarrow>
              success t + failed t + skipped t = length bills \<and>
              skipped t = length (filter zero_or_null_amount bills))"
    by (rule exI)
next
  assume h: "auto_refund_process_refunds e (JObj kvs) s = (Inr (), s'') \<and>
    \<not> py_eq_zero (dict_get kvs ''totalCount'' (JInt 0)) \<and>
    py_iter (dict_get kvs ''data'' (JList [])) = Inr items"
  let ?s0 = "log_msg INFO ''{} bills'' [dict_get kvs ''totalCount'' (JInt 0)] s"
  obtain r1 s1 where lp: "auto_refund_loop e items (0, 0) ?s0 = (r1, s1)"
    by (cases "auto_refund_loop e items (0, 0) ?s0") auto
  with h obtain u where r1: "r1 = Inr u"
    and s'': "s'' = log_msg INFO ''Success: {}, Failed: {}''
                      [JInt (int (fst u)), JInt (int (snd u))] s1"
    by (cases r1) (auto simp: auto_refund_process_refunds_def)
  from lp r1 have lp': "auto_refund_loop e items (0, 0) ?s0 = (Inr u, s1)" by simp
  from auto_refund_loop_tally[OF lp'] have sum: "fst u + snd u = length (filter selected items)"
    by simp
  from auto_refund_loop_count[OF lp'] s''
  have "length (calls s'') = length (calls s) + length (filter selected items)"
    by simp
  then have nc: "length (new_calls s s'') = length (filter selected items)"
    by (simp add: new_calls_def)
  have "last (logged s'') =
          Log INFO ''Success: {}, Failed: {}'' [JInt (int (fst u)), JInt (int (snd u))] \<and>
        fst u + snd u = length (new_calls s s'') \<and> fst u + snd u \<le> length items"
    using s'' sum nc by simp
  then show "\<exists>a b. last (logged s'') =
                Log INFO ''Success: {}, Failed: {}'' [JInt (int a), JInt (int b)] \<and>
             a + b = length (new_calls s s'') \<and> a + b \<le> length items"
    by blast
qed

theorem logged_counts_witness:
  "fst (autoRefund_process_refunds demo_env demo_page logged_in) = Inr () \<and>
   length demo_bills = 2 \<and> length (filter zero_or_null_amount demo_bills) = 1 \<and>
   (\<exists>t. last (logged (snd (autoRefund_process_refunds demo_env demo_page logged_in))) =
          summary t \<and>
        success t + failed t + skipped t = 2 \<and> skipped t = 1) \<and>
   fst (auto_refund_process_refunds demo_env demo_page logged_in) = Inr () \<and>
   (\<exists>a b. last (logged (snd (auto_refund_process_refunds demo_env demo_page logged_in))) =
            Log INFO ''Success: {}, Failed: {}'' [JInt (int a), JInt (int b)] \<and>
          a + b = 2)"
  using logged_counts
          [of demo_env "[(''totalCount'', JInt 2), (''data'', JList demo_bills)]" logged_in
              "snd (autoRefund_process_refunds demo_env demo_page logged_in)" demo_bills
              "snd (auto_refund_process_refunds demo_env demo_page logged_in)" demo_bills]
        demo_autoRefund_process_refunds demo_auto_refund_process_refunds
  by (auto simp add: demo_page_def dict_get_def demo_bills_def valid_id_def
        zero_or_null_amount_def selected_def numeral_2_eq_2)

theorem logged_counts_counterexample:
  "fst (autoRefund_process_refunds demo_env
          (JObj [(''totalCount'', JInt 1), (''data'', JList [JObj [(''actualMoney'', JInt 0)]])])
          logged_in) = Inr () \<and>
   last (logged (snd (autoRefund_process_refunds demo_env
          (JObj [(''totalCount'', JInt 1), (''data'', JList [JObj [(''actualMoney'', JInt 0)]])])
          logged_in))) = summary \<lparr>success = 0, failed = 0, skipped = 0\<rparr> \<and>
   length [JObj [(''actualMoney'', JInt 0)]] = 1 \<and>
   length (filter zero_or_null_amount [JObj [(''actualMoney'', JInt 0)]]) = 1"
  by (simp add: zero_or_null_amount_def dict_get_def autoRefund_process_refunds_def
        autoRefund_bill_def logged_in_def)

text \<open>
  C4, as amended. A bill record (a dict) whose id fails the id test of \<^verbatim>\<open>autoRefund.py\<close>
  (missing, \<^verbatim>\<open>None\<close>, 0, empty, or neither \<^verbatim>\<open>int\<close> nor \<^verbatim>\<open>str\<close>) costs one warning in the
  log: no error, no call, no counter changes, and the loop goes on with the rest of the
  list. In \<^verbatim>\<open>auto_refund.py\<close> a bill whose id is falsy changes nothing at all.
\<close>

theorem malformed_id_passed_over:
  "(autoRefund_loop e bs1 t0 s0 = (Inr t, s) \<and>
    (\<not> truthy (id_of kvs) \<or> \<not> isinstance_int_str (id_of kvs)) \<longrightarrow>
      autoRefund_loop e (bs1 @ JObj kvs # bs2) t0 s0 =
      autoRefund_loop e bs2 t (log_msg WARNING ''Invalid bill_id: {}'' [id_of kvs] s)) \<and>
   (auto_refund_loop e bs1 u0 s0 = (Inr u, s) \<and> \<not> truthy (id_of kvs) \<longrightarrow>
      auto_refund_loop e (bs1 @ JObj kvs # bs2) u0 s0 = auto_refund_loop e bs2 u s)"
proof -
  have "autoRefund_loop e (bs1 @ JObj kvs # bs2) t0 s0 =
      autoRefund_loop e bs2 t (log_msg WARNING ''Invalid bill_id: {}'' [id_of kvs] s)"
    if "autoRefund_loop e bs1 t0 s0 = (Inr t, s)"
       "\<not> truthy (id_of kvs) \<or> \<not> isinstance_int_str (id_of kvs)"
  proof -
    from that(2) have "\<not> valid_id (JObj kvs)" by (auto simp: valid_id_def)
    then have "autoRefund_bill e (JObj kvs) t s =
                 (Inr t, log_msg WARNING ''Invalid bill_id: {}'' [id_of kvs] s)"
      by (rule autoRefund_bill_invalid_id)
    with that(1) show ?thesis by (rule autoRefund_loop_at)
  qed
  moreover have "auto_refund_loop e (bs1 @ JObj kvs # bs2) u0 s0 = auto_refund_loop e bs2 u s"
    if "auto_refund_loop e bs1 u0 s0 = (Inr u, s)" "\<not> truthy (id_of kvs)"
  proof -
    from that(2) have "\<not> selected (JObj kvs)" by (simp add: selected_def)
    then have "auto_refund_bill e (JObj kvs) u s = (Inr u, s)"
      by (rule auto_refund_bill_not_selected)
    with that(1) show ?thesis by (rule auto_refund_loop_at)
  qed
  ultimately show ?thesis by blast
qed

theorem malformed_id_passed_over_witness:
  "\<not> truthy (id_of [(''actualMoney'', JInt 100)]) \<and>
   autoRefund_loop demo_env [JObj [(''actualMoney'', JInt 100)]]
       \<lparr>success = 0, failed = 0, skipped = 0\<rparr> logged_in =
     (Inr \<lparr>success = 0, failed = 0, skipped = 0\<rparr>,
      log_msg WARNING ''Invalid bill_id: {}'' [JNull] logged_in) \<and>
   auto_refund_loop demo_env [JObj [(''actualMoney'', JInt 100)]] (0, 0) logged_in =
     (Inr (0, 0), logged_in)"
  using malformed_id_passed_over
          [of demo_env "[]" "\<lparr>success = 0, failed = 0, skipped = 0\<rparr>" logged_in
              "\<lparr>success = 0, failed = 0, skipped = 0\<rparr>" logged_in
              "[(''actualMoney'', JInt 100)]" "[]" "(0, 0)" "(0, 0)"]
  by (simp add: dict_get_def)

theorem malformed_id_counterexample:
  "fst (autoRefund_bill demo_env (JObj [(''actualMoney'', JInt 100)])
          \<lparr>success = 0, failed = 0, skipped = 0\<rparr> logged_in) =
     Inr \<lparr>success = 0, failed = 0, skipped = 0\<rparr> \<and>
   fst (autoRefund_bill demo_env (JObj [(''id'', JStr ''abc''), (''actualMoney'', JInt 100)])
          \<lparr>success = 0, failed = 0, skipped = 0\<rparr> logged_in) = Inl ValueError"
  by (simp add: autoRefund_bill_def dict_get_def int_of_str_def strip_def is_space_def
        is_digit_def)




text \<open>
  C6, as amended. Every refund request that a loop sends has the JSON body
  \<^verbatim>\<open>{billId, memberId: null, refundMoney, note, refundPowerDiscount: 0}\<close>, built from a
  bill of the list. In \<^verbatim>\<open>autoRefund.py\<close> \<^verbatim>\<open>billId\<close> is the id as an integer and the note is
  \<^verbatim>\<open>python-refund-\<close>, the id, a dash and today's date as \<^verbatim>\<open>YYYYMMDD\<close>. In
  \<^verbatim>\<open>auto_refund.py\<close> \<^verbatim>\<open>billId\<close> is the id as it came and the note is the fixed text
  \<^verbatim>\<open>auto-refund\<close>.
\<close>

theorem refund_request_body:
  "(autoRefund_loop e bills t s = (r, s') \<longrightarrow>
      (\<forall>q\<in>set (new_calls s s'). \<exists>kvs i a.
          JObj kvs \<in> set bills \<and> py_int (id_of kvs) = Inr i \<and>
          py_int (amount_of kvs) = Inr a \<and>
          json_body q =
            JObj [(''billId'', JInt i),
                  (''memberId'', JNull),
                  (''refundMoney'', JInt a),
                  (''note'', JStr (''python-refund-'' @ str_of_int i @ ''-'' @
                                   strftime_Ymd (today e))),
                  (''refundPowerDiscount'', JInt 0)])) \<and>
   (auto_refund_loop e bills u s = (r2, s2) \<longrightarrow>
      (\<forall>q\<in>set (new_calls s s2). \<exists>kvs a.
          JObj kvs \<in> set bills \<and> py_int (amount_of kvs) = Inr a \<and>
          json_body q =
            JObj [(''billId'', id_of kvs),
                  (''memberId'', JNull),
                  (''refundMoney'', JInt a),
                  (''note'', JStr ''auto-refund''),
                  (''refundPowerDiscount'', JInt 0)]))"
proof (intro conjI impI ballI)
  fix q
  assume lp: "autoRefund_loop e bills t s = (r, s')" and q: "q \<in> set (new_calls s s')"
  from autoRefund_loop_new_calls[OF lp q] obtain b where
    b: "b \<in> set bills" "autoRefund_request_for e (auth_token s) q b" by blast
  then obtain kvs i a where k: "b = JObj kvs" "py_int (id_of kvs) = Inr i"
    "py_int (amount_of kvs) = Inr a" "q = autoRefund_refund_request e (auth_token s) i a"
    by (blast dest: autoRefund_request_forD)
  from k(4) have "json_body q =
            JObj [(''billId'', JInt i),
                  (''memberId'', JNull),
                  (''refundMoney'', JInt a),
                  (''note'', JStr (''python-refund-'' @ str_of_int i @ ''-'' @
                                   strftime_Ymd (today e))),
                  (''refundPowerDiscount'', JInt 0)]"
    by (simp add: autoRefund_refund_request_def)
  with b(1) k(1,2,3) show "\<exists>kvs i a.
          JObj kvs \<in> set bills \<and> py_int (id_of kvs) = Inr i \<and>
          py_int (amount_of kvs) = Inr a \<and>
          json_body q =
            JObj [(''billId'', JInt i),
                  (''memberId'', JNull),
                  (''refundMoney'', JInt a),
                  (''note'', JStr (''python-refund-'' @ str_of_int i @ ''-'' @
                                   strftime_Ymd (today e))),
                  (''refundPowerDiscount'', JInt 0)]"
    by blast
next
  fix q
  assume lp: "auto_refund_loop e bills u s = (r2, s2)" and q: "q \<in> set (new_calls s s2)"
  from auto_refund_loop_new_calls[OF lp q] obtain b where
    b: "b \<in> set bills" "auto_refund_request_for e s q b" by blast
  then obtain kvs a where k: "b = JObj kvs" "py_int (amount_of kvs) = Inr a"
    "q = auto_refund_refund_request e s (id_of kvs) a"
    by (blast dest: auto_refund_request_forD)
  from k(3) have "json_body q =
            JObj [(''billId'', id_of kvs),
                  (''memberId'', JNull),
                  (''refundMoney'', JInt a),
                  (''note'', JStr ''auto-refund''),
                  (''refundPowerDiscount'', JInt 0)]"
    by (simp add: auto_refund_refund_request_def)
  with b(1) k(1,2) show "\<exists>kvs a.
          JObj kvs \<in> set bills \<and> py_int (amount_of kvs) = Inr a \<and>
          json_body q =
            JObj [(''billId'', id_of kvs),
                  (''memberId'', JNull),
                  (''refundMoney'', JInt a),
                  (''note'', JStr ''auto-refund''),
                  (''refundPowerDiscount'', JInt 0)]"
    by blast
qed

theorem refund_request_body_witness:
  "map json_body
     (new_calls logged_in
        (snd (autoRefund_loop demo_env demo_bills
                \<lparr>success = 0, failed = 0, skipped = 0\<rparr> logged_in))) =
     [JObj [(''billId'', JInt 501),
            (''memberId'', JNull),
            (''refundMoney'', JInt 100),
            (''note'', JStr ''python-refund-501-20260301''),
            (''refundPowerDiscount'', JInt 0)]] \<and>
   list_all
     (\<lambda>q. \<exists>kvs i a.
          JObj kvs \<in> set demo_bills \<and> py_int (id_of kvs) = Inr i \<and>
          py_int (amount_of kvs) = Inr a \<and>
          json_body q =
            JObj [(''billId'', JInt i),
                  (''memberId'', JNull),
                  (''refundMoney'', JInt a),
                  (''note'', JStr (''python-refund-'' @ str_of_int i @ ''-'' @
                                   strftime_Ymd (today demo_env))),
                  (''refundPowerDiscount'', JInt 0)])
     (new_calls logged_in
        (snd (autoRefund_loop demo_env demo_bills
                \<lparr>success = 0, failed = 0, skipped = 0\<rparr> logged_in))) \<and>
   length (new_calls logged_in
             (snd (auto_refund_loop demo_env demo_bills (0, 0) logged_in))) = 2 \<and>
   list_all
     (\<lambda>q. \<exists>kvs a.
          JObj kvs \<in> set demo_bills \<and> py_int (amount_of kvs) = Inr a \<and>
          json_body q =
            JObj [(''billId'', id_of kvs),
                  (''memberId'', JNull),
                  (''refundMoney'', JInt a),
                  (''note'', JStr ''auto-refund''),
                  (''refundPowerDiscount'', JInt 0)])
     (new_calls logged_in (snd (auto_refund_loop demo_env demo_bills (0, 0) logged_in)))"
proof -
  let ?z = "\<lparr>success = 0, failed = 0, skipped = 0\<rparr>"
  have a: "autoRefund_loop demo_env demo_bills ?z logged_in =
             (fst (autoRefund_loop demo_env demo_bills ?z logged_in),
              snd (autoRefund_loop demo_env demo_bills ?z logged_in))" by simp
  have b: "auto_refund_loop demo_env demo_bills (0, 0) logged_in =
             (fst (auto_refund_loop demo_env demo_bills (0, 0) logged_in),
              snd (auto_refund_loop demo_env demo_bills (0, 0) logged_in))" by simp
  note inst = refund_request_body
          [of demo_env demo_bills ?z logged_in
              "fst (autoRefund_loop demo_env demo_bills ?z logged_in)"
              "snd (autoRefund_loop demo_env demo_bills ?z logged_in)"
              "(0, 0)"
              "fst (auto_refund_loop demo_env demo_bills (0, 0) logged_in)"
              "snd (auto_refund_loop demo_env demo_bills (0, 0) logged_in)"]
  have C: "map json_body
     (new_calls logged_in (snd (autoRefund_loop demo_env demo_bills ?z logged_in))) =
     [JObj [(''billId'', JInt 501),
            (''memberId'', JNull),
            (''refundMoney'', JInt 100),
            (''note'', JStr ''python-refund-501-20260301''),
            (''refundPowerDiscount'', JInt 0)]]"
    using demo_note
    by (simp add: new_calls_def demo_autoRefund_loop autoRefund_refund_request_def)
       (simp add: logged_in_def)
  have D: "length (new_calls logged_in
             (snd (auto_refund_loop demo_env demo_bills (0, 0) logged_in))) = 2"
    by (simp add: new_calls_def demo_auto_refund_loop) (simp add: logged_in_def)
  from inst a b C D show ?thesis unfolding list_all_iff by blast
qed

theorem refund_request_body_counterexample:
  "map (\<lambda>q. (body_field q ''billId'', body_field q ''note''))
     (new_calls logged_in (snd (auto_refund_loop demo_env demo_bills (0, 0) logged_in))) =
     [(JInt 501, JStr ''auto-refund''), (JInt 502, JStr ''auto-refund'')] \<and>
   \<not> sublist ''501'' ''auto-refund'' \<and> \<not> sublist ''502'' ''auto-refund'' \<and>
   \<not> sublist (strftime_Ymd (today demo_env)) ''auto-refund''"
proof -
  have "strftime_Ymd (today demo_env) = ''20260301''"
    by (simp add: digit_char_def strftime_Ymd_def pad_def demo_env_def demo_date_def)
  moreover have "\<not> sublist ''501'' ''auto-refund''" "\<not> sublist ''502'' ''auto-refund''"
    "\<not> sublist ''20260301'' ''auto-refund''"
    by (simp_all add: sublist_code)
  moreover have "map (\<lambda>q. (body_field q ''billId'', body_field q ''note''))
     (new_calls logged_in (snd (auto_refund_loop demo_env demo_bills (0, 0) logged_in))) =
     [(JInt 501, JStr ''auto-refund''), (JInt 502, JStr ''auto-refund'')]"
    by (simp add: new_calls_def demo_auto_refund_loop) (simp add: logged_in_def)
  ultimately show ?thesis by simp
qed

text \<open>
  C7, as amended. \<^verbatim>\<open>auto_refund.py\<close> is the stricter script: its configuration check also
  demands the password hash, which the check of \<^verbatim>\<open>autoRefund.py\<close> never looks at. In every
  run of \<^verbatim>\<open>autoRefund.py\<close> each call (login, fetch, refund) is made with \<^verbatim>\<open>timeout=30\<close>; in
  every run of the stricter \<^verbatim>\<open>auto_refund.py\<close> no call is given a timeout.
\<close>

theorem timeout_of_every_call:
  "(\<forall>q\<in>set (calls (snd (autoRefund_script e))). timeout q = Some 30) \<and>
   (\<forall>q\<in>set (calls (snd (auto_refund_script e))). timeout q = None) \<and>
   (auto_refund_config_ok c \<longrightarrow> PASSWORD_HASH c \<noteq> None) \<and>
   autoRefund_missing (c\<lparr>PASSWORD_HASH := p\<rparr>) = autoRefund_missing c"
proof (intro conjI ballI impI)
  fix q assume q: "q \<in> set (calls (snd (autoRefund_script e)))"
  show "timeout q = Some 30"
  proof (cases "autoRefund_missing (cfg e) = []")
    case False
    with q show ?thesis by (simp add: autoRefund_script_def autoRefund_init_def)
  next
    case True
    then have sc: "autoRefund_script e = autoRefund_main e autoRefund_init"
      by (simp add: autoRefund_script_def)
    from autoRefund_main_calls[of e autoRefund_init] obtain rs where
      c: "calls (snd (autoRefund_main e autoRefund_init)) = autoRefund_login_request e # rs"
      and rs: "rs = [] \<or>
         (\<exists>token rs'. rs = autoRefund_fetch_request e token # rs' \<and>
            (\<forall>q\<in>set rs'. \<exists>i a. q = autoRefund_refund_request e token i a))"
      by (auto simp: autoRefund_init_def)
    from q sc c have "q = autoRefund_login_request e \<or> q \<in> set rs" by simp
    then show ?thesis
    proof
      assume "q = autoRefund_login_request e"
      then show ?thesis by (simp add: autoRefund_login_request_def)
    next
      assume "q \<in> set rs"
      with rs obtain token rs' where
        "q = autoRefund_fetch_request e token \<or> q \<in> set rs'"
        "\<forall>q\<in>set rs'. \<exists>i a. q = autoRefund_refund_request e token i a"
        by auto
      then show ?thesis
        by (auto simp: autoRefund_fetch_request_def autoRefund_refund_request_def)
    qed
  qed
next
  fix q assume q: "q \<in> set (calls (snd (auto_refund_script e)))"
  show "timeout q = None"
  proof (cases "auto_refund_config_ok (cfg e)")
    case False
    with q show ?thesis by (simp add: auto_refund_script_def auto_refund_init_def)
  next
    case True
    then have sc: "auto_refund_script e = auto_refund_main e (auto_refund_init e)"
      by (simp add: auto_refund_script_def)
    from auto_refund_main_calls[of e "auto_refund_init e"] obtain rs where
      c: "calls (snd (auto_refund_main e (auto_refund_init e))) =
            auto_refund_login_request e (auto_refund_init e) # rs"
      and rs: "rs = [] \<or>
         (\<exists>st rs'. rs = auto_refund_fetch_request e st # rs' \<and>
            (\<forall>q\<in>set rs'. \<exists>bid a. q = auto_refund_refund_request e st bid a))"
      by (auto simp: auto_refund_init_def)
    from q sc c have "q = auto_refund_login_request e (auto_refund_init e) \<or> q \<in> set rs"
      by simp
    then show ?thesis
    proof
      assume "q = auto_refund_login_request e (auto_refund_init e)"
      then show ?thesis by (simp add: auto_refund_login_request_def)
    next
      assume "q \<in> set rs"
      with rs obtain st rs' where
        "q = auto_refund_fetch_request e st \<or> q \<in> set rs'"
        "\<forall>q\<in>set rs'. \<exists>bid a. q = auto_refund_refund_request e st bid a"
        by auto
      then show ?thesis
        by (auto simp: auto_refund_fetch_request_def auto_refund_refund_request_def)
    qed
  qed
next
  assume "auto_refund_config_ok c"
  then show "PASSWORD_HASH c \<noteq> None"
    by (auto simp: auto_refund_config_ok_def jopt_def split: option.splits)
next
  show "autoRefund_missing (c\<lparr>PASSWORD_HASH := p\<rparr>) = autoRefund_missing c"
    by (simp add: autoRefund_missing_def)
qed

theorem timeout_of_every_call_witness:
  "map timeout (calls (snd (autoRefund_script demo_env))) = [Some 30, Some 30, Some 30] \<and>
   list_all (\<lambda>q. timeout q = Some 30) (calls (snd (autoRefund_script demo_env))) \<and>
   map timeout (calls (snd (auto_refund_script demo_env))) = [None, None, None, None] \<and>
   list_all (\<lambda>q. timeout q = None) (calls (snd (auto_refund_script demo_env))) \<and>
   auto_refund_config_ok demo_cfg \<and> PASSWORD_HASH demo_cfg \<noteq> None \<and>
   autoRefund_missing (demo_cfg\<lparr>PASSWORD_HASH := None\<rparr>) = autoRefund_missing demo_cfg"
proof -
  have "map timeout (calls (snd (autoRefund_script demo_env))) = [Some 30, Some 30, Some 30]"
    by (simp add: demo_autoRefund_script autoRefund_login_request_def
          autoRefund_fetch_request_def autoRefund_refund_request_def)
  with timeout_of_every_call[of demo_env demo_cfg None] demo_auto_refund_script
    demo_config_ok(2)
  show ?thesis unfolding list_all_iff by blast
qed

theorem timeout_of_every_call_counterexample:
  "autoRefund_missing (demo_cfg\<lparr>PASSWORD_HASH := None\<rparr>) = [] \<and>
   \<not> auto_refund_config_ok (demo_cfg\<lparr>PASSWORD_HASH := None\<rparr>) \<and>
   auto_refund_config_ok demo_cfg \<and>
   map timeout (calls (snd (auto_refund_script demo_env))) = [None, None, None, None]"
  using demo_auto_refund_script
  by (simp add: autoRefund_missing_def auto_refund_config_ok_def demo_cfg_def jopt_def)

text \<open>
  C8. When the \<^verbatim>\<open>totalCount\<close> field of the fetched response is 0 or absent,
  \<^verbatim>\<open>process_refunds\<close> returns at once in both scripts, after two log lines and without
  any call, whatever the \<^verbatim>\<open>data\<close> list holds: the bills are gated by \<^verbatim>\<open>totalCount\<close>, not
  by the length of the list. In the concrete run below the list holds two bills.
\<close>

theorem zero_total_count_returns_at_once:
  assumes "map_of kvs ''totalCount'' = None \<or> map_of kvs ''totalCount'' = Some (JInt 0)"
  shows "autoRefund_process_refunds e (JObj kvs) s =
           (Inr (), log_msg INFO ''No bills to process'' []
                      (log_msg INFO ''{} bills found'' [JInt 0] s)) \<and>
         calls (snd (autoRefund_process_refunds e (JObj kvs) s)) = calls s \<and>
         auto_refund_process_refunds e (JObj kvs) s =
           (Inr (), log_msg INFO ''No refunds needed'' []
                      (log_msg INFO ''{} bills'' [JInt 0] s)) \<and>
         calls (snd (auto_refund_process_refunds e (JObj kvs) s)) = calls s"
proof -
  from assms have "dict_get kvs ''totalCount'' (JInt 0) = JInt 0"
    by (auto simp: dict_get_def)
  then show ?thesis
    by (simp add: autoRefund_process_refunds_def auto_refund_process_refunds_def)
qed

theorem zero_total_count_returns_at_once_witness:
  "map_of [(''totalCount'', JInt 0), (''data'', JList demo_bills)] ''totalCount'' = Some (JInt 0) \<and>
   dict_get [(''totalCount'', JInt 0), (''data'', JList demo_bills)] ''data'' (JList []) =
     JList demo_bills \<and> length demo_bills = 2 \<and>
   fst (autoRefund_process_refunds demo_env
          (JObj [(''totalCount'', JInt 0), (''data'', JList demo_bills)]) logged_in) = Inr () \<and>
   calls (snd (autoRefund_process_refunds demo_env
          (JObj [(''totalCount'', JInt 0), (''data'', JList demo_bills)]) logged_in)) = [] \<and>
   fst (auto_refund_process_refunds demo_env
          (JObj [(''totalCount'', JInt 0), (''data'', JList demo_bills)]) logged_in) = Inr () \<and>
   calls (snd (auto_refund_process_refunds demo_env
          (JObj [(''totalCount'', JInt 0), (''data'', JList demo_bills)]) logged_in)) = []"
  using zero_total_count_returns_at_once
          [of "[(''totalCount'', JInt 0), (''data'', JList demo_bills)]" demo_env logged_in]
  by (simp add: dict_get_def demo_bills_def logged_in_def)

text \<open>
  C9. Every call of \<^verbatim>\<open>refund_bill\<close> of \<^verbatim>\<open>autoRefund.py\<close> made while the stored
  \<^verbatim>\<open>auth_token\<close> is \<^verbatim>\<open>None\<close> or empty returns \<^verbatim>\<open>False\<close> and sends no request: the state
  only gains the log line, the list of calls is unchanged.
\<close>

theorem refund_bill_without_token:
  assumes "auth_token s = JNull \<or> auth_token s = JStr []"
  shows "autoRefund_refund_bill e bill_id amount s =
           (False, log_msg ERROR ''No auth_token for refund'' [] s) \<and>
         calls (snd (autoRefund_refund_bill e bill_id amount s)) = calls s"
  using assms by (auto simp: autoRefund_refund_bill_def)

theorem refund_bill_without_token_witness:
  "(auth_token autoRefund_init = JNull \<or> auth_token autoRefund_init = JStr []) \<and>
   fst (autoRefund_refund_bill demo_env 501 100 autoRefund_init) = False \<and>
   calls (snd (autoRefund_refund_bill demo_env 501 100 autoRefund_init)) = []"
  using refund_bill_without_token[of autoRefund_init demo_env 501 100]
  by (simp add: autoRefund_init_def)

text \<open>
  C10. The refund requests that a loop sends are, one for one and in order, the requests
  of a subsequence of the bill list, and each of them carries the id of its own bill
  and, as \<^verbatim>\<open>refundMoney\<close>, the integer that \<^verbatim>\<open>int\<close> returns for the \<^verbatim>\<open>actualMoney\<close> of that
  same bill. For an amount that is a float \<open>x\<close>, this integer \<open>n\<close> is \<open>x\<close> rounded toward
  zero: \<open>\<bar>n\<bar> \<le> \<bar>x\<bar>\<close> and \<open>\<bar>x - n\<bar> < 1\<close>. The value sent is always a JSON integer.
\<close>

theorem refund_money_is_int_of_amount:
  "(autoRefund_loop e bills t s = (r, s') \<longrightarrow>
      calls s' = calls s @ new_calls s s' \<and>
      (\<exists>bs. subseq bs bills \<and>
         list_all2
           (\<lambda>q b. \<exists>kvs i n. b = JObj kvs \<and>
              py_int (id_of kvs) = Inr i \<and> body_field q ''billId'' = JInt i \<and>
              py_int (amount_of kvs) = Inr n \<and> body_field q ''refundMoney'' = JInt n \<and>
              (\<forall>x. amount_of kvs = JFloat (Finite x) \<longrightarrow>
                   \<bar>of_int n\<bar> \<le> \<bar>x\<bar> \<and> \<bar>x - of_int n\<bar> < 1))
           (new_calls s s') bs)) \<and>
   (auto_refund_loop e bills u s = (r2, s2) \<longrightarrow>
      calls s2 = calls s @ new_calls s s2 \<and>
      (\<exists>bs. subseq bs bills \<and>
         list_all2
           (\<lambda>q b. \<exists>kvs n. b = JObj kvs \<and>
              body_field q ''billId'' = id_of kvs \<and>
              py_int (amount_of kvs) = Inr n \<and> body_field q ''refundMoney'' = JInt n \<and>
              (\<forall>x. amount_of kvs = JFloat (Finite x) \<longrightarrow>
                   \<bar>of_int n\<bar> \<le> \<bar>x\<bar> \<and> \<bar>x - of_int n\<bar> < 1))
           (new_calls s s2) bs))"
proof (intro conjI impI)
  assume lp: "autoRefund_loop e bills t s = (r, s')"
  from autoRefund_loop_effect[OF lp] obtain rs bs where
    c: "calls s' = calls s @ rs" and sb: "subseq bs bills" and
    la: "list_all2 (autoRefund_request_for e (auth_token s)) rs bs"
    by auto
  from c have nc: "new_calls s s' = rs" by simp
  from c nc show "calls s' = calls s @ new_calls s s'" by simp
  have "list_all2
           (\<lambda>q b. \<exists>kvs i n. b = JObj kvs \<and>
              py_int (id_of kvs) = Inr i \<and> body_field q ''billId'' = JInt i \<and>
              py_int (amount_of kvs) = Inr n \<and> body_field q ''refundMoney'' = JInt n \<and>
              (\<forall>x. amount_of kvs = JFloat (Finite x) \<longrightarrow>
                   \<bar>of_int n\<bar> \<le> \<bar>x\<bar> \<and> \<bar>x - of_int n\<bar> < 1))
           rs bs"
    using la
  proof (rule list_all2_mono)
    fix q b assume "autoRefund_request_for e (auth_token s) q b"
    then obtain kvs i a where k: "b = JObj kvs" "py_int (id_of kvs) = Inr i"
      "py_int (amount_of kvs) = Inr a" "q = autoRefund_refund_request e (auth_token s) i a"
      by (blast dest: autoRefund_request_forD)
    have "\<forall>x. amount_of kvs = JFloat (Finite x) \<longrightarrow>
               \<bar>of_int a\<bar> \<le> \<bar>x\<bar> \<and> \<bar>x - of_int a\<bar> < 1"
      using k(3) trunc_toward_zero by auto
    with k show "\<exists>kvs i n. b = JObj kvs \<and>
              py_int (id_of kvs) = Inr i \<and> body_field q ''billId'' = JInt i \<and>
              py_int (amount_of kvs) = Inr n \<and> body_field q ''refundMoney'' = JInt n \<and>
              (\<forall>x. amount_of kvs = JFloat (Finite x) \<longrightarrow>
                   \<bar>of_int n\<bar> \<le> \<bar>x\<bar> \<and> \<bar>x - of_int n\<bar> < 1)"
      by auto
  qed
  with sb nc show "\<exists>bs. subseq bs bills \<and>
         list_all2
           (\<lambda>q b. \<exists>kvs i n. b = JObj kvs \<and>
              py_int (id_of kvs) = Inr i \<and> body_field q ''billId'' = JInt i \<and>
              py_int (amount_of kvs) = Inr n \<and> body_field q ''refundMoney'' = JInt n \<and>
              (\<forall>x. amount_of kvs = JFloat (Finite x) \<longrightarrow>
                   \<bar>of_int n\<bar> \<le> \<bar>x\<bar> \<and> \<bar>x - of_int n\<bar> < 1))
           (new_calls s s') bs"
    by blast
next
  assume lp: "auto_refund_loop e bills u s = (r2, s2)"
  from auto_refund_loop_effect[OF lp] obtain rs bs where
    c: "calls s2 = calls s @ rs" and sb: "subseq bs bills" and
    la: "list_all2 (auto_refund_request_for e s) rs bs"
    by auto
  from c have nc: "new_calls s s2 = rs" by simp
  from c nc show "calls s2 = calls s @ new_calls s s2" by simp
  have "list_all2
           (\<lambda>q b. \<exists>kvs n. b = JObj kvs \<and>
              body_field q ''billId'' = id_of kvs \<and>
              py_int (amount_of kvs) = Inr n \<and> body_field q ''refundMoney'' = JInt n \<and>
              (\<forall>x. amount_of kvs = JFloat (Finite x) \<longrightarrow>
                   \<bar>of_int n\<bar> \<le> \<bar>x\<bar> \<and> \<bar>x - of_int n\<bar> < 1))
           rs bs"
    using la
  proof (rule list_all2_mono)
    fix q b assume "auto_refund_request_for e s q b"
    then obtain kvs a where k: "b = JObj kvs" "py_int (amount_of kvs) = Inr a"
      "q = auto_refund_refund_request e s (id_of kvs) a"
      by (blast dest: auto_refund_request_forD)
    have "\<forall>x. amount_of kvs = JFloat (Finite x) \<longrightarrow>
               \<bar>of_int a\<bar> \<le> \<bar>x\<bar> \<and> \<bar>x - of_int a\<bar> < 1"
      using k(2) trunc_toward_zero by auto
    with k show "\<exists>kvs n. b = JObj kvs \<and>
              body_field q ''billId'' = id_of kvs \<and>
              py_int (amount_of kvs) = Inr n \<and> body_field q ''refundMoney'' = JInt n \<and>
              (\<forall>x. amount_of kvs = JFloat (Finite x) \<longrightarrow>
                   \<bar>of_int n\<bar> \<le> \<bar>x\<bar> \<and> \<bar>x - of_int n\<bar> < 1)"
      by auto
  qed
  with sb nc show "\<exists>bs. subseq bs bills \<and>
         list_all2
           (\<lambda>q b. \<exists>kvs n. b = JObj kvs \<and>
              body_field q ''billId'' = id_of kvs \<and>
              py_int (amount_of kvs) = Inr n \<and> body_field q ''refundMoney'' = JInt n \<and>
              (\<forall>x. amount_of kvs = JFloat (Finite x) \<longrightarrow>
                   \<bar>of_int n\<bar> \<le> \<bar>x\<bar> \<and> \<bar>x - of_int n\<bar> < 1))
           (new_calls s s2) bs"
    by blast
qed

theorem refund_money_is_int_of_amount_witness:
  "map (\<lambda>q. (body_field q ''billId'', body_field q ''refundMoney''))
     (new_calls logged_in
        (snd (autoRefund_loop demo_env float_bills
                \<lparr>success = 0, failed = 0, skipped = 0\<rparr> logged_in))) =
     [(JInt 7, JInt 12), (JInt 8, JInt (- 12))] \<and>
   (\<exists>bs. subseq bs float_bills \<and>
      list_all2
        (\<lambda>q b. \<exists>kvs i n. b = JObj kvs \<and>
           py_int (id_of kvs) = Inr i \<and> body_field q ''billId'' = JInt i \<and>
           py_int (amount_of kvs) = Inr n \<and> body_field q ''refundMoney'' = JInt n \<and>
           (\<forall>x. amount_of kvs = JFloat (Finite x) \<longrightarrow>
                \<bar>of_int n\<bar> \<le> \<bar>x\<bar> \<and> \<bar>x - of_int n\<bar> < 1))
        (new_calls logged_in
           (snd (autoRefund_loop demo_env float_bills
                   \<lparr>success = 0, failed = 0, skipped = 0\<rparr> logged_in))) bs) \<and>
   map (\<lambda>q. (body_field q ''billId'', body_field q ''refundMoney''))
     (new_calls logged_in (snd (auto_refund_loop demo_env float_bills (0, 0) logged_in))) =
     [(JInt 7, JInt 12), (JInt 8, JInt (- 12))] \<and>
   (\<exists>bs. subseq bs float_bills \<and>
      list_all2
        (\<lambda>q b. \<exists>kvs n. b = JObj kvs \<and>
           body_field q ''billId'' = id_of kvs \<and>
           py_int (amount_of kvs) = Inr n \<and> body_field q ''refundMoney'' = JInt n \<and>
           (\<forall>x. amount_of kvs = JFloat (Finite x) \<longrightarrow>
                \<bar>of_int n\<bar> \<le> \<bar>x\<bar> \<and> \<bar>x - of_int n\<bar> < 1))
        (new_calls logged_in
           (snd (auto_refund_loop demo_env float_bills (0, 0) logged_in))) bs)"
proof -
  let ?z = "\<lparr>success = 0, failed = 0, skipped = 0\<rparr>"
  have a: "autoRefund_loop demo_env float_bills ?z logged_in =
             (fst (autoRefund_loop demo_env float_bills ?z logged_in),
              snd (autoRefund_loop demo_env float_bills ?z logged_in))" by simp
  have b: "auto_refund_loop demo_env float_bills (0, 0) logged_in =
             (fst (auto_refund_loop demo_env float_bills (0, 0) logged_in),
              snd (auto_refund_loop demo_env float_bills (0, 0) logged_in))" by simp
  note inst = refund_money_is_int_of_amount
          [of demo_env float_bills ?z logged_in
              "fst (autoRefund_loop demo_env float_bills ?z logged_in)"
              "snd (autoRefund_loop demo_env float_bills ?z logged_in)"
              "(0, 0)"
              "fst (auto_refund_loop demo_env float_bills (0, 0) logged_in)"
              "snd (auto_refund_loop demo_env float_bills (0, 0) logged_in)"]
  have C: "map (\<lambda>q. (body_field q ''billId'', body_field q ''refundMoney''))
     (new_calls logged_in (snd (autoRefund_loop demo_env float_bills ?z logged_in))) =
       [(JInt 7, JInt 12), (JInt 8, JInt (- 12))]"
    by (simp add: new_calls_def demo_float_autoRefund_loop) (simp add: logged_in_def)
  have D: "map (\<lambda>q. (body_field q ''billId'', body_field q ''refundMoney''))
     (new_calls logged_in (snd (auto_refund_loop demo_env float_bills (0, 0) logged_in))) =
       [(JInt 7, JInt 12), (JInt 8, JInt (- 12))]"
    by (simp add: new_calls_def demo_float_auto_refund_loop) (simp add: logged_in_def)
  from inst a b C D show ?thesis by blast
qed

end
